theory Spec2Isabelle
  imports Main "HOL-Library.Word"
begin

section \<open>Bytes, ArrayBuffers and the DataView primitives\<close>

text \<open>
  The decoder of \<^verbatim>\<open>src/header.ts\<close> works on JavaScript buffers. An ArrayBuffer is a
  list of bytes; the heap is the list of all ArrayBuffers, an address being an index
  into it, and an allocation appends. JavaScript numbers that hold field values,
  offsets and sizes are natural numbers here: doubles are exact on integers up to
  \<open>2 ^ 53\<close>, so the theorems that add such numbers carry a bound. A \<^verbatim>\<open>bigint\<close> is a
  natural number of its own kind.
\<close>

type_synonym byte = "8 word"

type_synonym heap = "byte list list"

text \<open>The errors thrown: a RangeError by a view on an access that does not fit, a
  TypeError by a view on a value of the wrong kind, and the
  \<^verbatim>\<open>TypeError('Invalid type')\<close> of \<^verbatim>\<open>getData\<close>.\<close>

datatype error = RangeError | TypeError | InvalidType

datatype numeric = Number nat | BigInt nat

datatype jsval = Undefined | Boolean bool | Numeric numeric

definition andThen :: "error + 'a \<Rightarrow> ('a \<Rightarrow> error + 'b) \<Rightarrow> error + 'b" where
  "andThen r f = (case r of Inl e \<Rightarrow> Inl e | Inr x \<Rightarrow> f x)"

text \<open>\<^verbatim>\<open>Number(x)\<close> for a number or a bigint.\<close>

fun toNumber :: "numeric \<Rightarrow> nat" where
  "toNumber (Number n) = n"
| "toNumber (BigInt n) = n"

text \<open>The value of a byte sequence, least significant byte first.\<close>

fun le_nat :: "byte list \<Rightarrow> nat" where
  "le_nat [] = 0"
| "le_nat (b # bs) = unat b + 256 * le_nat bs"

text \<open>The \<open>n\<close> low bytes of a number, least significant first (the conversion of
  \<^verbatim>\<open>setUint16\<close>, \<^verbatim>\<open>setUint32\<close> and \<^verbatim>\<open>setBigUint64\<close> is modular).\<close>

fun nat_le :: "nat \<Rightarrow> nat \<Rightarrow> byte list" where
  "nat_le 0 v = []"
| "nat_le (Suc n) v = of_nat (v mod 256) # nat_le n (v div 256)"

definition decode :: "bool \<Rightarrow> byte list \<Rightarrow> nat" where
  "decode littleEndian bs = le_nat (if littleEndian then bs else rev bs)"

definition encode :: "bool \<Rightarrow> nat \<Rightarrow> nat \<Rightarrow> byte list" where
  "encode littleEndian n v = (if littleEndian then nat_le n v else rev (nat_le n v))"

text \<open>A DataView over a whole ArrayBuffer \<open>bs\<close>: a read or write of \<open>n\<close> bytes at
  \<open>byteOffset\<close> throws a RangeError when it does not fit.\<close>

definition getUint :: "nat \<Rightarrow> byte list \<Rightarrow> nat \<Rightarrow> bool \<Rightarrow> error + nat" where
  "getUint n bs byteOffset littleEndian =
     (if byteOffset + n \<le> length bs
      then Inr (decode littleEndian (take n (drop byteOffset bs)))
      else Inl RangeError)"

definition setUint :: "nat \<Rightarrow> byte list \<Rightarrow> nat \<Rightarrow> nat \<Rightarrow> bool \<Rightarrow> error + byte list" where
  "setUint n bs byteOffset v littleEndian =
     (if byteOffset + n \<le> length bs
      then Inr (take byteOffset bs @ encode littleEndian n v @ drop (byteOffset + n) bs)
      else Inl RangeError)"

definition getUint8 :: "byte list \<Rightarrow> nat \<Rightarrow> error + nat" where
  "getUint8 bs byteOffset = getUint 1 bs byteOffset True"

definition getUint16 :: "byte list \<Rightarrow> nat \<Rightarrow> bool \<Rightarrow> error + nat" where
  "getUint16 = getUint 2"

definition getUint32 :: "byte list \<Rightarrow> nat \<Rightarrow> bool \<Rightarrow> error + nat" where
  "getUint32 = getUint 4"

definition getBigUint64 :: "byte list \<Rightarrow> nat \<Rightarrow> bool \<Rightarrow> error + nat" where
  "getBigUint64 = getUint 8"

definition setUint8 :: "byte list \<Rightarrow> nat \<Rightarrow> nat \<Rightarrow> error + byte list" where
  "setUint8 bs byteOffset v = setUint 1 bs byteOffset v True"

definition setUint16 :: "byte list \<Rightarrow> nat \<Rightarrow> nat \<Rightarrow> bool \<Rightarrow> error + byte list" where
  "setUint16 = setUint 2"

definition setUint32 :: "byte list \<Rightarrow> nat \<Rightarrow> nat \<Rightarrow> bool \<Rightarrow> error + byte list" where
  "setUint32 = setUint 4"

definition setBigUint64 :: "byte list \<Rightarrow> nat \<Rightarrow> nat \<Rightarrow> bool \<Rightarrow> error + byte list" where
  "setBigUint64 = setUint 8"

section \<open>Buffers\<close>

text \<open>
  A \<^verbatim>\<open>Buffer\<close> is a window of an ArrayBuffer. \<^verbatim>\<open>Buffer.from(arrayBuffer)\<close> shares the
  ArrayBuffer, \<^verbatim>\<open>slice\<close> shares it too and clamps both ends to the buffer's length,
  and \<^verbatim>\<open>Buffer.from(buffer)\<close> copies the bytes into a new ArrayBuffer of exactly
  that length, as the \<^verbatim>\<open>buffer\<close> package documents them.
\<close>

record Buffer =
  arrayBuffer :: nat
  byteOffset :: nat
  byteLength :: nat

definition Buffer_from_ArrayBuffer :: "nat \<Rightarrow> heap \<Rightarrow> Buffer" where
  "Buffer_from_ArrayBuffer a h = \<lparr>arrayBuffer = a, byteOffset = 0, byteLength = length (h ! a)\<rparr>"

definition slice :: "Buffer \<Rightarrow> nat \<Rightarrow> nat \<Rightarrow> Buffer" where
  "slice b start end =
     (let s = min start (byteLength b);
          e = max s (min end (byteLength b))
      in \<lparr>arrayBuffer = arrayBuffer b, byteOffset = byteOffset b + s, byteLength = e - s\<rparr>)"

definition contents :: "Buffer \<Rightarrow> heap \<Rightarrow> byte list" where
  "contents b h = take (byteLength b) (drop (byteOffset b) (h ! arrayBuffer b))"

definition Buffer_from_Buffer :: "Buffer \<Rightarrow> heap \<Rightarrow> Buffer \<times> heap" where
  "Buffer_from_Buffer b h =
     (\<lparr>arrayBuffer = length h, byteOffset = 0, byteLength = byteLength b\<rparr>, h @ [contents b h])"

section \<open>Elements\<close>

text \<open>
  \<^verbatim>\<open>ELFHeader\<close> is built on a buffer alone. Every other element has a buffer and the
  back-reference \<^verbatim>\<open>elf\<close>, through which it reaches the file's buffer and header;
  \<^verbatim>\<open>Rel\<close> adds \<^verbatim>\<open>needsAddend\<close>, which is \<^verbatim>\<open>undefined\<close> (\<open>None\<close>) when the constructor
  is called without it.
\<close>

record ELFHeader =
  hbuffer :: Buffer

record ELFref =
  ebuffer :: Buffer
  header :: ELFHeader

record ELFElement =
  buffer :: Buffer
  elf :: ELFref

record Rel = ELFElement +
  needsAddend :: "bool option"

record ELF = ELFref +
  sectionHeaders :: "ELFElement list"
  programHeaders :: "ELFElement list"

text \<open>\<^verbatim>\<open>new DataView(this.buffer.buffer)\<close>: the view is over the whole ArrayBuffer
  under the element's buffer, from its first byte, whatever the buffer's own offset
  and length. It is given by that ArrayBuffer's address.\<close>

definition hview :: "ELFHeader \<Rightarrow> nat" where
  "hview this = arrayBuffer (hbuffer this)"

definition view :: "'a ELFElement_scheme \<Rightarrow> nat" where
  "view this = arrayBuffer (buffer this)"

text \<open>
  The calls on a view, with the arguments as the source evaluates them (the offset,
  then the endianness, each of which may already have thrown). A read gives a number,
  and a bigint for \<^verbatim>\<open>getBigUint64\<close>. A write stores into the ArrayBuffer in the heap;
  \<^verbatim>\<open>setUint8\<close>, \<^verbatim>\<open>setUint16\<close> and \<^verbatim>\<open>setUint32\<close> throw a TypeError on a bigint
  and \<^verbatim>\<open>setBigUint64\<close> throws one on a number.
\<close>

definition readUint8 :: "heap \<Rightarrow> nat \<Rightarrow> error + nat \<Rightarrow> error + numeric" where
  "readUint8 h a off =
     andThen off (\<lambda>p. andThen (getUint8 (h ! a) p) (\<lambda>v. Inr (Number v)))"

definition readUint16 :: "heap \<Rightarrow> nat \<Rightarrow> error + nat \<Rightarrow> error + bool \<Rightarrow> error + numeric" where
  "readUint16 h a off le =
     andThen off (\<lambda>p. andThen le (\<lambda>l. andThen (getUint16 (h ! a) p l) (\<lambda>v. Inr (Number v))))"

definition readUint32 :: "heap \<Rightarrow> nat \<Rightarrow> error + nat \<Rightarrow> error + bool \<Rightarrow> error + numeric" where
  "readUint32 h a off le =
     andThen off (\<lambda>p. andThen le (\<lambda>l. andThen (getUint32 (h ! a) p l) (\<lambda>v. Inr (Number v))))"

definition readBigUint64 :: "heap \<Rightarrow> nat \<Rightarrow> error + nat \<Rightarrow> error + bool \<Rightarrow> error + numeric" where
  "readBigUint64 h a off le =
     andThen off (\<lambda>p. andThen le (\<lambda>l. andThen (getBigUint64 (h ! a) p l) (\<lambda>v. Inr (BigInt v))))"

definition writeUint8 :: "heap \<Rightarrow> nat \<Rightarrow> error + nat \<Rightarrow> numeric \<Rightarrow> error + heap" where
  "writeUint8 h a off val =
     andThen off (\<lambda>p.
       case val of BigInt n \<Rightarrow> Inl TypeError
       | Number n \<Rightarrow> andThen (setUint8 (h ! a) p n) (\<lambda>bs. Inr (h[a := bs])))"

definition writeUint16 :: "heap \<Rightarrow> nat \<Rightarrow> error + nat \<Rightarrow> numeric \<Rightarrow> error + bool \<Rightarrow> error + heap" where
  "writeUint16 h a off val le =
     andThen off (\<lambda>p. andThen le (\<lambda>l.
       case val of BigInt n \<Rightarrow> Inl TypeError
       | Number n \<Rightarrow> andThen (setUint16 (h ! a) p n l) (\<lambda>bs. Inr (h[a := bs]))))"

definition writeUint32 :: "heap \<Rightarrow> nat \<Rightarrow> error + nat \<Rightarrow> numeric \<Rightarrow> error + bool \<Rightarrow> error + heap" where
  "writeUint32 h a off val le =
     andThen off (\<lambda>p. andThen le (\<lambda>l.
       case val of BigInt n \<Rightarrow> Inl TypeError
       | Number n \<Rightarrow> andThen (setUint32 (h ! a) p n l) (\<lambda>bs. Inr (h[a := bs]))))"

definition writeBigUint64 :: "heap \<Rightarrow> nat \<Rightarrow> error + nat \<Rightarrow> numeric \<Rightarrow> error + bool \<Rightarrow> error + heap" where
  "writeBigUint64 h a off val le =
     andThen off (\<lambda>p. andThen le (\<lambda>l.
       case val of Number n \<Rightarrow> Inl TypeError
       | BigInt n \<Rightarrow> andThen (setBigUint64 (h ! a) p n l) (\<lambda>bs. Inr (h[a := bs]))))"

text \<open>\<^verbatim>\<open>c ? a : b\<close>, for two values and for two computations, and
  \<^verbatim>\<open>typeof val == 'number' ? x : y\<close>.\<close>

definition ternary :: "error + bool \<Rightarrow> 'a \<Rightarrow> 'a \<Rightarrow> error + 'a" where
  "ternary c a b = andThen c (\<lambda>w. Inr (if w then a else b))"

definition ifelse :: "error + bool \<Rightarrow> error + 'a \<Rightarrow> error + 'a \<Rightarrow> error + 'a" where
  "ifelse c x y = andThen c (\<lambda>w. if w then x else y)"

fun isNumber :: "numeric \<Rightarrow> bool" where
  "isNumber (Number n) = True"
| "isNumber (BigInt n) = False"

record ident =
  MAG0 :: nat
  MAG1 :: nat
  MAG2 :: nat
  MAG3 :: nat
  CLASS :: nat
  DATA :: nat
  VERSION :: nat
  OSABI :: nat
  ABIVERSION :: nat

definition ELFHeader_ident :: "ELFHeader \<Rightarrow> heap \<Rightarrow> error + ident" where
  "ELFHeader_ident this h =
     andThen (getUint8 (h ! hview this) 0) (\<lambda>b0.
     andThen (getUint8 (h ! hview this) 1) (\<lambda>b1.
     andThen (getUint8 (h ! hview this) 2) (\<lambda>b2.
     andThen (getUint8 (h ! hview this) 3) (\<lambda>b3.
     andThen (getUint8 (h ! hview this) 4) (\<lambda>b4.
     andThen (getUint8 (h ! hview this) 5) (\<lambda>b5.
     andThen (getUint8 (h ! hview this) 6) (\<lambda>b6.
     andThen (getUint8 (h ! hview this) 7) (\<lambda>b7.
     andThen (getUint8 (h ! hview this) 8) (\<lambda>b8.
       Inr \<lparr>MAG0 = b0, MAG1 = b1, MAG2 = b2, MAG3 = b3, CLASS = b4, DATA = b5,
            VERSION = b6, OSABI = b7, ABIVERSION = b8\<rparr>)))))))))"

definition ELFHeader_isLE :: "ELFHeader \<Rightarrow> heap \<Rightarrow> error + bool" where
  "ELFHeader_isLE this h = andThen (ELFHeader_ident this h) (\<lambda>i. Inr (DATA i = 1))"

definition ELFHeader_is32bit :: "ELFHeader \<Rightarrow> heap \<Rightarrow> error + bool" where
  "ELFHeader_is32bit this h = andThen (ELFHeader_ident this h) (\<lambda>i. Inr (CLASS i = 1))"

definition ELF_isLE :: "'a ELFref_scheme \<Rightarrow> heap \<Rightarrow> error + bool" where
  "ELF_isLE this h = ELFHeader_isLE (header this) h"

definition ELF_is32bit :: "'a ELFref_scheme \<Rightarrow> heap \<Rightarrow> error + bool" where
  "ELF_is32bit this h = ELFHeader_is32bit (header this) h"

definition isLE :: "'a ELFElement_scheme \<Rightarrow> heap \<Rightarrow> error + bool" where
  "isLE this h = ELF_isLE (elf this) h"

definition is32bit :: "'a ELFElement_scheme \<Rightarrow> heap \<Rightarrow> error + bool" where
  "is32bit this h = ELF_is32bit (elf this) h"

section \<open>The accessors of the elements\<close>

subsection \<open>ELFHeader\<close>

definition ELFHeader_type :: "ELFHeader \<Rightarrow> heap \<Rightarrow> error + numeric" where
  "ELFHeader_type this h = readUint16 h (hview this) (Inr 0x10) (ELFHeader_isLE this h)"

definition ELFHeader_machine :: "ELFHeader \<Rightarrow> heap \<Rightarrow> error + numeric" where
  "ELFHeader_machine this h = readUint16 h (hview this) (Inr 0x12) (ELFHeader_isLE this h)"

definition ELFHeader_version :: "ELFHeader \<Rightarrow> heap \<Rightarrow> error + numeric" where
  "ELFHeader_version this h = readUint32 h (hview this) (Inr 0x14) (ELFHeader_isLE this h)"

definition ELFHeader_entry :: "ELFHeader \<Rightarrow> heap \<Rightarrow> error + numeric" where
  "ELFHeader_entry this h =
     ifelse (ELFHeader_is32bit this h)
       (readUint32 h (hview this) (Inr 0x18) (ELFHeader_isLE this h))
       (readBigUint64 h (hview this) (Inr 0x18) (ELFHeader_isLE this h))"

definition ELFHeader_phoff :: "ELFHeader \<Rightarrow> heap \<Rightarrow> error + numeric" where
  "ELFHeader_phoff this h =
     ifelse (ELFHeader_is32bit this h)
       (readUint32 h (hview this) (Inr 0x1c) (ELFHeader_isLE this h))
       (readBigUint64 h (hview this) (Inr 0x20) (ELFHeader_isLE this h))"

definition ELFHeader_shoff :: "ELFHeader \<Rightarrow> heap \<Rightarrow> error + numeric" where
  "ELFHeader_shoff this h =
     ifelse (ELFHeader_is32bit this h)
       (readUint32 h (hview this) (Inr 0x20) (ELFHeader_isLE this h))
       (readBigUint64 h (hview this) (Inr 0x28) (ELFHeader_isLE this h))"

definition ELFHeader_flags :: "ELFHeader \<Rightarrow> heap \<Rightarrow> error + numeric" where
  "ELFHeader_flags this h = readUint32 h (hview this) (ternary (ELFHeader_is32bit this h) 0x24 0x30) (ELFHeader_isLE this h)"

definition ELFHeader_ehsize :: "ELFHeader \<Rightarrow> heap \<Rightarrow> error + numeric" where
  "ELFHeader_ehsize this h = readUint16 h (hview this) (ternary (ELFHeader_is32bit this h) 0x28 0x34) (ELFHeader_isLE this h)"

definition ELFHeader_phentsize :: "ELFHeader \<Rightarrow> heap \<Rightarrow> error + numeric" where
  "ELFHeader_phentsize this h = readUint16 h (hview this) (ternary (ELFHeader_is32bit this h) 0x2a 0x36) (ELFHeader_isLE this h)"

definition ELFHeader_phnum :: "ELFHeader \<Rightarrow> heap \<Rightarrow> error + numeric" where
  "ELFHeader_phnum this h = readUint16 h (hview this) (ternary (ELFHeader_is32bit this h) 0x2c 0x38) (ELFHeader_isLE this h)"

definition ELFHeader_shentsize :: "ELFHeader \<Rightarrow> heap \<Rightarrow> error + numeric" where
  "ELFHeader_shentsize this h = readUint16 h (hview this) (ternary (ELFHeader_is32bit this h) 0x2e 0x3a) (ELFHeader_isLE this h)"

definition ELFHeader_shnum :: "ELFHeader \<Rightarrow> heap \<Rightarrow> error + numeric" where
  "ELFHeader_shnum this h = readUint16 h (hview this) (ternary (ELFHeader_is32bit this h) 0x30 0x3c) (ELFHeader_isLE this h)"

definition ELFHeader_shstrndx :: "ELFHeader \<Rightarrow> heap \<Rightarrow> error + numeric" where
  "ELFHeader_shstrndx this h = readUint16 h (hview this) (ternary (ELFHeader_is32bit this h) 0x32 0x3e) (ELFHeader_isLE this h)"

definition ELFHeader_set_type :: "ELFHeader \<Rightarrow> numeric \<Rightarrow> heap \<Rightarrow> error + heap" where
  "ELFHeader_set_type this val h = writeUint16 h (hview this) (Inr 0x10) val (ELFHeader_isLE this h)"

definition ELFHeader_set_machine :: "ELFHeader \<Rightarrow> numeric \<Rightarrow> heap \<Rightarrow> error + heap" where
  "ELFHeader_set_machine this val h = writeUint16 h (hview this) (Inr 0x12) val (ELFHeader_isLE this h)"

definition ELFHeader_set_version :: "ELFHeader \<Rightarrow> numeric \<Rightarrow> heap \<Rightarrow> error + heap" where
  "ELFHeader_set_version this val h = writeUint32 h (hview this) (Inr 0x14) val (ELFHeader_isLE this h)"

definition ELFHeader_set_entry :: "ELFHeader \<Rightarrow> numeric \<Rightarrow> heap \<Rightarrow> error + heap" where
  "ELFHeader_set_entry this val h =
     (if isNumber val
      then writeUint32 h (hview this) (Inr 0x18) val (ELFHeader_isLE this h)
      else writeBigUint64 h (hview this) (Inr 0x18) val (ELFHeader_isLE this h))"

definition ELFHeader_set_phoff :: "ELFHeader \<Rightarrow> numeric \<Rightarrow> heap \<Rightarrow> error + heap" where
  "ELFHeader_set_phoff this val h =
     (if isNumber val
      then writeUint32 h (hview this) (Inr 0x1c) val (ELFHeader_isLE this h)
      else writeBigUint64 h (hview this) (Inr 0x20) val (ELFHeader_isLE this h))"

definition ELFHeader_set_shoff :: "ELFHeader \<Rightarrow> numeric \<Rightarrow> heap \<Rightarrow> error + heap" where
  "ELFHeader_set_shoff this val h =
     (if isNumber val
      then writeUint32 h (hview this) (Inr 0x20) val (ELFHeader_isLE this h)
      else writeBigUint64 h (hview this) (Inr 0x28) val (ELFHeader_isLE this h))"

definition ELFHeader_set_flags :: "ELFHeader \<Rightarrow> numeric \<Rightarrow> heap \<Rightarrow> error + heap" where
  "ELFHeader_set_flags this val h = writeUint32 h (hview this) (ternary (ELFHeader_is32bit this h) 0x24 0x30) val (ELFHeader_isLE this h)"

definition ELFHeader_set_ehsize :: "ELFHeader \<Rightarrow> numeric \<Rightarrow> heap \<Rightarrow> error + heap" where
  "ELFHeader_set_ehsize this val h = writeUint16 h (hview this) (ternary (ELFHeader_is32bit this h) 0x28 0x34) val (ELFHeader_isLE this h)"

definition ELFHeader_set_phentsize :: "ELFHeader \<Rightarrow> numeric \<Rightarrow> heap \<Rightarrow> error + heap" where
  "ELFHeader_set_phentsize this val h = writeUint16 h (hview this) (ternary (ELFHeader_is32bit this h) 0x2a 0x36) val (ELFHeader_isLE this h)"

definition ELFHeader_set_phnum :: "ELFHeader \<Rightarrow> numeric \<Rightarrow> heap \<Rightarrow> error + heap" where
  "ELFHeader_set_phnum this val h = writeUint16 h (hview this) (ternary (ELFHeader_is32bit this h) 0x2c 0x38) val (ELFHeader_isLE this h)"

definition ELFHeader_set_shentsize :: "ELFHeader \<Rightarrow> numeric \<Rightarrow> heap \<Rightarrow> error + heap" where
  "ELFHeader_set_shentsize this val h = writeUint16 h (hview this) (ternary (ELFHeader_is32bit this h) 0x2e 0x3a) val (ELFHeader_isLE this h)"

definition ELFHeader_set_shnum :: "ELFHeader \<Rightarrow> numeric \<Rightarrow> heap \<Rightarrow> error + heap" where
  "ELFHeader_set_shnum this val h = writeUint16 h (hview this) (ternary (ELFHeader_is32bit this h) 0x30 0x3c) val (ELFHeader_isLE this h)"

definition ELFHeader_set_shstrndx :: "ELFHeader \<Rightarrow> numeric \<Rightarrow> heap \<Rightarrow> error + heap" where
  "ELFHeader_set_shstrndx this val h = writeUint16 h (hview this) (ternary (ELFHeader_is32bit this h) 0x32 0x3e) val (ELFHeader_isLE this h)"

definition ELFHeader_FromBuffer :: "Buffer \<Rightarrow> ELFHeader" where
  "ELFHeader_FromBuffer b = \<lparr>hbuffer = b\<rparr>"

subsection \<open>ProgramHeader\<close>

definition ProgramHeader_type :: "'a ELFElement_scheme \<Rightarrow> heap \<Rightarrow> error + numeric" where
  "ProgramHeader_type this h = readUint32 h (view this) (Inr 0) (isLE this h)"

definition ProgramHeader_flags :: "'a ELFElement_scheme \<Rightarrow> heap \<Rightarrow> error + numeric" where
  "ProgramHeader_flags this h = readUint32 h (view this) (ternary (is32bit this h) 0x18 4) (isLE this h)"

definition ProgramHeader_offset :: "'a ELFElement_scheme \<Rightarrow> heap \<Rightarrow> error + numeric" where
  "ProgramHeader_offset this h =
     ifelse (is32bit this h)
       (readUint32 h (view this) (Inr 4) (isLE this h))
       (readBigUint64 h (view this) (Inr 8) (isLE this h))"

definition ProgramHeader_vaddr :: "'a ELFElement_scheme \<Rightarrow> heap \<Rightarrow> error + numeric" where
  "ProgramHeader_vaddr this h =
     ifelse (is32bit this h)
       (readUint32 h (view this) (Inr 8) (isLE this h))
       (readBigUint64 h (view this) (Inr 0x10) (isLE this h))"

definition ProgramHeader_paddr :: "'a ELFElement_scheme \<Rightarrow> heap \<Rightarrow> error + numeric" where
  "ProgramHeader_paddr this h =
     ifelse (is32bit this h)
       (readUint32 h (view this) (Inr 0x0c) (isLE this h))
       (readBigUint64 h (view this) (Inr 0x18) (isLE this h))"

definition ProgramHeader_filesz :: "'a ELFElement_scheme \<Rightarrow> heap \<Rightarrow> error + numeric" where
  "ProgramHeader_filesz this h =
     ifelse (is32bit this h)
       (readUint32 h (view this) (Inr 0x10) (isLE this h))
       (readBigUint64 h (view this) (Inr 0x20) (isLE this h))"

definition ProgramHeader_memsz :: "'a ELFElement_scheme \<Rightarrow> heap \<Rightarrow> error + numeric" where
  "ProgramHeader_memsz this h =
     ifelse (is32bit this h)
       (readUint32 h (view this) (Inr 0x14) (isLE this h))
       (readBigUint64 h (view this) (Inr 0x28) (isLE this h))"

definition ProgramHeader_align :: "'a ELFElement_scheme \<Rightarrow> heap \<Rightarrow> error + numeric" where
  "ProgramHeader_align this h =
     ifelse (is32bit this h)
       (readUint32 h (view this) (Inr 0x1c) (isLE this h))
       (readBigUint64 h (view this) (Inr 0x30) (isLE this h))"

definition ProgramHeader_set_type :: "'a ELFElement_scheme \<Rightarrow> numeric \<Rightarrow> heap \<Rightarrow> error + heap" where
  "ProgramHeader_set_type this val h = writeUint32 h (view this) (Inr 0) val (isLE this h)"

definition ProgramHeader_set_flags :: "'a ELFElement_scheme \<Rightarrow> numeric \<Rightarrow> heap \<Rightarrow> error + heap" where
  "ProgramHeader_set_flags this val h = writeUint32 h (view this) (ternary (is32bit this h) 0x18 4) val (isLE this h)"

definition ProgramHeader_set_offset :: "'a ELFElement_scheme \<Rightarrow> numeric \<Rightarrow> heap \<Rightarrow> error + heap" where
  "ProgramHeader_set_offset this val h =
     (if isNumber val
      then writeUint32 h (view this) (Inr 4) val (isLE this h)
      else writeBigUint64 h (view this) (Inr 8) val (isLE this h))"

definition ProgramHeader_set_vaddr :: "'a ELFElement_scheme \<Rightarrow> numeric \<Rightarrow> heap \<Rightarrow> error + heap" where
  "ProgramHeader_set_vaddr this val h =
     (if isNumber val
      then writeUint32 h (view this) (Inr 8) val (isLE this h)
      else writeBigUint64 h (view this) (Inr 0x10) val (isLE this h))"

definition ProgramHeader_set_paddr :: "'a ELFElement_scheme \<Rightarrow> numeric \<Rightarrow> heap \<Rightarrow> error + heap" where
  "ProgramHeader_set_paddr this val h =
     (if isNumber val
      then writeUint32 h (view this) (Inr 0x0c) val (isLE this h)
      else writeBigUint64 h (view this) (Inr 0x18) val (isLE this h))"

definition ProgramHeader_set_filesz :: "'a ELFElement_scheme \<Rightarrow> numeric \<Rightarrow> heap \<Rightarrow> error + heap" where
  "ProgramHeader_set_filesz this val h =
     (if isNumber val
      then writeUint32 h (view this) (Inr 0x10) val (isLE this h)
      else writeBigUint64 h (view this) (Inr 0x20) val (isLE this h))"

definition ProgramHeader_set_memsz :: "'a ELFElement_scheme \<Rightarrow> numeric \<Rightarrow> heap \<Rightarrow> error + heap" where
  "ProgramHeader_set_memsz this val h =
     (if isNumber val
      then writeUint32 h (view this) (Inr 0x14) val (isLE this h)
      else writeBigUint64 h (view this) (Inr 0x28) val (isLE this h))"

definition ProgramHeader_set_align :: "'a ELFElement_scheme \<Rightarrow> numeric \<Rightarrow> heap \<Rightarrow> error + heap" where
  "ProgramHeader_set_align this val h =
     (if isNumber val
      then writeUint32 h (view this) (Inr 0x1c) val (isLE this h)
      else writeBigUint64 h (view this) (Inr 0x30) val (isLE this h))"

definition ProgramHeader_FromBuffer :: "Buffer \<Rightarrow> ELFref \<Rightarrow> ELFElement" where
  "ProgramHeader_FromBuffer b e = \<lparr>buffer = b, elf = e\<rparr>"

subsection \<open>SectionHeader\<close>

text \<open>The section header has getters only.\<close>

definition SectionHeader_name :: "'a ELFElement_scheme \<Rightarrow> heap \<Rightarrow> error + numeric" where
  "SectionHeader_name this h = readUint32 h (view this) (Inr 0) (isLE this h)"

definition SectionHeader_type :: "'a ELFElement_scheme \<Rightarrow> heap \<Rightarrow> error + numeric" where
  "SectionHeader_type this h = readUint32 h (view this) (Inr 4) (isLE this h)"

definition SectionHeader_flags :: "'a ELFElement_scheme \<Rightarrow> heap \<Rightarrow> error + numeric" where
  "SectionHeader_flags this h =
     ifelse (is32bit this h)
       (readUint32 h (view this) (Inr 8) (isLE this h))
       (readBigUint64 h (view this) (Inr 8) (isLE this h))"

definition SectionHeader_addr :: "'a ELFElement_scheme \<Rightarrow> heap \<Rightarrow> error + numeric" where
  "SectionHeader_addr this h =
     ifelse (is32bit this h)
       (readUint32 h (view this) (Inr 0x0c) (isLE this h))
       (readBigUint64 h (view this) (Inr 0x10) (isLE this h))"

definition SectionHeader_offset :: "'a ELFElement_scheme \<Rightarrow> heap \<Rightarrow> error + numeric" where
  "SectionHeader_offset this h =
     ifelse (is32bit this h)
       (readUint32 h (view this) (Inr 0x10) (isLE this h))
       (readBigUint64 h (view this) (Inr 0x18) (isLE this h))"

definition SectionHeader_size :: "'a ELFElement_scheme \<Rightarrow> heap \<Rightarrow> error + numeric" where
  "SectionHeader_size this h =
     ifelse (is32bit this h)
       (readUint32 h (view this) (Inr 0x14) (isLE this h))
       (readBigUint64 h (view this) (Inr 0x20) (isLE this h))"

definition SectionHeader_link :: "'a ELFElement_scheme \<Rightarrow> heap \<Rightarrow> error + numeric" where
  "SectionHeader_link this h = readUint32 h (view this) (ternary (is32bit this h) 0x18 0x28) (isLE this h)"

definition SectionHeader_info :: "'a ELFElement_scheme \<Rightarrow> heap \<Rightarrow> error + numeric" where
  "SectionHeader_info this h = readUint32 h (view this) (ternary (is32bit this h) 0x1c 0x2c) (isLE this h)"

definition SectionHeader_addralign :: "'a ELFElement_scheme \<Rightarrow> heap \<Rightarrow> error + numeric" where
  "SectionHeader_addralign this h =
     ifelse (is32bit this h)
       (readUint32 h (view this) (Inr 0x20) (isLE this h))
       (readBigUint64 h (view this) (Inr 0x30) (isLE this h))"

definition SectionHeader_entsize :: "'a ELFElement_scheme \<Rightarrow> heap \<Rightarrow> error + numeric" where
  "SectionHeader_entsize this h =
     ifelse (is32bit this h)
       (readUint32 h (view this) (Inr 0x24) (isLE this h))
       (readBigUint64 h (view this) (Inr 0x38) (isLE this h))"

text \<open>\<^verbatim>\<open>this.elf.buffer.slice(Number(this.offset), Number(this.offset) + Number(this.size))\<close>:
  a window of the file's buffer, sharing its bytes.\<close>

definition SectionHeader_value :: "'a ELFElement_scheme \<Rightarrow> heap \<Rightarrow> error + Buffer" where
  "SectionHeader_value this h =
     andThen (SectionHeader_offset this h) (\<lambda>start.
     andThen (SectionHeader_offset this h) (\<lambda>off.
     andThen (SectionHeader_size this h) (\<lambda>sz.
       Inr (slice (ebuffer (elf this)) (toNumber start) (toNumber off + toNumber sz)))))"

definition SectionHeader_FromBuffer :: "Buffer \<Rightarrow> ELFref \<Rightarrow> ELFElement" where
  "SectionHeader_FromBuffer b e = \<lparr>buffer = b, elf = e\<rparr>"

subsection \<open>Symbol\<close>

definition Symbol_name :: "'a ELFElement_scheme \<Rightarrow> heap \<Rightarrow> error + numeric" where
  "Symbol_name this h = readUint32 h (view this) (Inr 0) (isLE this h)"

definition Symbol_value :: "'a ELFElement_scheme \<Rightarrow> heap \<Rightarrow> error + numeric" where
  "Symbol_value this h =
     ifelse (is32bit this h)
       (readUint32 h (view this) (Inr 4) (isLE this h))
       (readBigUint64 h (view this) (Inr 8) (isLE this h))"

definition Symbol_size :: "'a ELFElement_scheme \<Rightarrow> heap \<Rightarrow> error + numeric" where
  "Symbol_size this h =
     ifelse (is32bit this h)
       (readUint32 h (view this) (Inr 8) (isLE this h))
       (readBigUint64 h (view this) (Inr 16) (isLE this h))"

definition Symbol_info :: "'a ELFElement_scheme \<Rightarrow> heap \<Rightarrow> error + numeric" where
  "Symbol_info this h = readUint8 h (view this) (ternary (is32bit this h) 12 4)"

definition Symbol_other :: "'a ELFElement_scheme \<Rightarrow> heap \<Rightarrow> error + numeric" where
  "Symbol_other this h = readUint8 h (view this) (ternary (is32bit this h) 13 5)"

definition Symbol_shndx :: "'a ELFElement_scheme \<Rightarrow> heap \<Rightarrow> error + numeric" where
  "Symbol_shndx this h = readUint16 h (view this) (ternary (is32bit this h) 14 6) (isLE this h)"

definition Symbol_set_name :: "'a ELFElement_scheme \<Rightarrow> numeric \<Rightarrow> heap \<Rightarrow> error + heap" where
  "Symbol_set_name this val h = writeUint32 h (view this) (Inr 0) val (isLE this h)"

definition Symbol_set_value :: "'a ELFElement_scheme \<Rightarrow> numeric \<Rightarrow> heap \<Rightarrow> error + heap" where
  "Symbol_set_value this val h =
     (if isNumber val
      then writeUint32 h (view this) (Inr 4) val (isLE this h)
      else writeBigUint64 h (view this) (Inr 8) val (isLE this h))"

definition Symbol_set_size :: "'a ELFElement_scheme \<Rightarrow> numeric \<Rightarrow> heap \<Rightarrow> error + heap" where
  "Symbol_set_size this val h =
     (if isNumber val
      then writeUint32 h (view this) (Inr 8) val (isLE this h)
      else writeBigUint64 h (view this) (Inr 16) val (isLE this h))"

definition Symbol_set_info :: "'a ELFElement_scheme \<Rightarrow> numeric \<Rightarrow> heap \<Rightarrow> error + heap" where
  "Symbol_set_info this val h = writeUint8 h (view this) (ternary (is32bit this h) 12 4) val"

definition Symbol_set_other :: "'a ELFElement_scheme \<Rightarrow> numeric \<Rightarrow> heap \<Rightarrow> error + heap" where
  "Symbol_set_other this val h = writeUint8 h (view this) (ternary (is32bit this h) 13 5) val"

definition Symbol_set_shndx :: "'a ELFElement_scheme \<Rightarrow> numeric \<Rightarrow> heap \<Rightarrow> error + heap" where
  "Symbol_set_shndx this val h = writeUint16 h (view this) (ternary (is32bit this h) 14 6) val (isLE this h)"

definition Symbol_FromBuffer :: "Buffer \<Rightarrow> ELFref \<Rightarrow> ELFElement" where
  "Symbol_FromBuffer b e = \<lparr>buffer = b, elf = e\<rparr>"

subsection \<open>Rel\<close>

definition Rel_offset :: "'a Rel_scheme \<Rightarrow> heap \<Rightarrow> error + numeric" where
  "Rel_offset this h =
     ifelse (is32bit this h)
       (readUint32 h (view this) (Inr 0) (isLE this h))
       (readBigUint64 h (view this) (Inr 0) (isLE this h))"

definition Rel_info :: "'a Rel_scheme \<Rightarrow> heap \<Rightarrow> error + numeric" where
  "Rel_info this h =
     ifelse (is32bit this h)
       (readUint32 h (view this) (Inr 4) (isLE this h))
       (readBigUint64 h (view this) (Inr 8) (isLE this h))"

text \<open>\<^verbatim>\<open>this.needsAddend && (...)\<close>: when \<^verbatim>\<open>needsAddend\<close> is \<^verbatim>\<open>undefined\<close> or
  \<^verbatim>\<open>false\<close> the getter returns it and reads nothing, and the setter writes nothing.\<close>

definition Rel_added :: "'a Rel_scheme \<Rightarrow> heap \<Rightarrow> error + jsval" where
  "Rel_added this h =
     (case needsAddend this of
        None \<Rightarrow> Inr Undefined
      | Some False \<Rightarrow> Inr (Boolean False)
      | Some True \<Rightarrow>
          andThen
            (ifelse (is32bit this h)
               (readUint32 h (view this) (Inr 8) (isLE this h))
               (readBigUint64 h (view this) (Inr 16) (isLE this h)))
            (\<lambda>v. Inr (Numeric v)))"

definition Rel_set_offset :: "'a Rel_scheme \<Rightarrow> numeric \<Rightarrow> heap \<Rightarrow> error + heap" where
  "Rel_set_offset this val h =
     (if isNumber val
      then writeUint32 h (view this) (Inr 0) val (isLE this h)
      else writeBigUint64 h (view this) (Inr 0) val (isLE this h))"

definition Rel_set_info :: "'a Rel_scheme \<Rightarrow> numeric \<Rightarrow> heap \<Rightarrow> error + heap" where
  "Rel_set_info this val h =
     (if isNumber val
      then writeUint32 h (view this) (Inr 4) val (isLE this h)
      else writeBigUint64 h (view this) (Inr 8) val (isLE this h))"

definition Rel_set_added :: "'a Rel_scheme \<Rightarrow> numeric \<Rightarrow> heap \<Rightarrow> error + heap" where
  "Rel_set_added this val h =
     (case needsAddend this of
        None \<Rightarrow> Inr h
      | Some False \<Rightarrow> Inr h
      | Some True \<Rightarrow>
          (if isNumber val
           then writeUint32 h (view this) (Inr 8) val (isLE this h)
           else writeBigUint64 h (view this) (Inr 16) val (isLE this h)))"

text \<open>\<^verbatim>\<open>Rel.FromBuffer(buffer, elf?, needsAddend?)\<close>; a caller that passes two
  arguments leaves \<^verbatim>\<open>needsAddend\<close> undefined.\<close>

definition Rel_FromBuffer :: "Buffer \<Rightarrow> ELFref \<Rightarrow> bool option \<Rightarrow> Rel" where
  "Rel_FromBuffer b e na = \<lparr>buffer = b, elf = e, needsAddend = na\<rparr>"

subsection \<open>Dyn\<close>

definition Dyn_tag :: "'a ELFElement_scheme \<Rightarrow> heap \<Rightarrow> error + numeric" where
  "Dyn_tag this h =
     ifelse (is32bit this h)
       (readUint32 h (view this) (Inr 0) (isLE this h))
       (readBigUint64 h (view this) (Inr 0) (isLE this h))"

definition Dyn_val :: "'a ELFElement_scheme \<Rightarrow> heap \<Rightarrow> error + numeric" where
  "Dyn_val this h =
     ifelse (is32bit this h)
       (readUint32 h (view this) (Inr 4) (isLE this h))
       (readBigUint64 h (view this) (Inr 8) (isLE this h))"

definition Dyn_ptr :: "'a ELFElement_scheme \<Rightarrow> heap \<Rightarrow> error + numeric" where
  "Dyn_ptr this h = Dyn_val this h"

definition Dyn_set_tag :: "'a ELFElement_scheme \<Rightarrow> numeric \<Rightarrow> heap \<Rightarrow> error + heap" where
  "Dyn_set_tag this val h =
     (if isNumber val
      then writeUint32 h (view this) (Inr 0) val (isLE this h)
      else writeBigUint64 h (view this) (Inr 0) val (isLE this h))"

definition Dyn_set_val :: "'a ELFElement_scheme \<Rightarrow> numeric \<Rightarrow> heap \<Rightarrow> error + heap" where
  "Dyn_set_val this val h =
     (if isNumber val
      then writeUint32 h (view this) (Inr 4) val (isLE this h)
      else writeBigUint64 h (view this) (Inr 8) val (isLE this h))"

definition Dyn_set_ptr :: "'a ELFElement_scheme \<Rightarrow> numeric \<Rightarrow> heap \<Rightarrow> error + heap" where
  "Dyn_set_ptr this val h = Dyn_set_val this val h"

definition Dyn_FromBuffer :: "Buffer \<Rightarrow> ELFref \<Rightarrow> ELFElement" where
  "Dyn_FromBuffer b e = \<lparr>buffer = b, elf = e\<rparr>"

subsection \<open>Note\<close>

definition Note_namesz :: "'a ELFElement_scheme \<Rightarrow> heap \<Rightarrow> error + numeric" where
  "Note_namesz this h =
     ifelse (is32bit this h)
       (readUint32 h (view this) (Inr 0) (isLE this h))
       (readBigUint64 h (view this) (Inr 0) (isLE this h))"

definition Note_descsz :: "'a ELFElement_scheme \<Rightarrow> heap \<Rightarrow> error + numeric" where
  "Note_descsz this h =
     ifelse (is32bit this h)
       (readUint32 h (view this) (Inr 4) (isLE this h))
       (readBigUint64 h (view this) (Inr 8) (isLE this h))"

definition Note_type :: "'a ELFElement_scheme \<Rightarrow> heap \<Rightarrow> error + numeric" where
  "Note_type this h =
     ifelse (is32bit this h)
       (readUint32 h (view this) (Inr 8) (isLE this h))
       (readBigUint64 h (view this) (Inr 16) (isLE this h))"

definition Note_set_namesz :: "'a ELFElement_scheme \<Rightarrow> numeric \<Rightarrow> heap \<Rightarrow> error + heap" where
  "Note_set_namesz this val h =
     (if isNumber val
      then writeUint32 h (view this) (Inr 0) val (isLE this h)
      else writeBigUint64 h (view this) (Inr 0) val (isLE this h))"

definition Note_set_descsz :: "'a ELFElement_scheme \<Rightarrow> numeric \<Rightarrow> heap \<Rightarrow> error + heap" where
  "Note_set_descsz this val h =
     (if isNumber val
      then writeUint32 h (view this) (Inr 4) val (isLE this h)
      else writeBigUint64 h (view this) (Inr 8) val (isLE this h))"

definition Note_set_type :: "'a ELFElement_scheme \<Rightarrow> numeric \<Rightarrow> heap \<Rightarrow> error + heap" where
  "Note_set_type this val h =
     (if isNumber val
      then writeUint32 h (view this) (Inr 8) val (isLE this h)
      else writeBigUint64 h (view this) (Inr 16) val (isLE this h))"

definition Note_FromBuffer :: "Buffer \<Rightarrow> ELFref \<Rightarrow> ELFElement" where
  "Note_FromBuffer b e = \<lparr>buffer = b, elf = e\<rparr>"

section \<open>Walking the tables\<close>

text \<open>
  \<^verbatim>\<open>ELFElementConstructor<T>\<close>: the section types a record kind may come from and its
  two-argument \<^verbatim>\<open>FromBuffer\<close>. The numeric codes of \<^verbatim>\<open>sh_type\<close> are declared in a
  module that is not part of the sources, so the kinds take them as a parameter.
\<close>

record 'T ELFElementConstructor =
  SH_TYPES :: "nat list"
  FromBuffer :: "Buffer \<Rightarrow> ELFref \<Rightarrow> 'T"

record sh_type =
  SYMTAB :: nat
  DYNSYM :: nat
  REL :: nat
  RELA :: nat
  DYNAMIC :: nat
  NOTE :: nat

definition Symbol_class :: "sh_type \<Rightarrow> ELFElement ELFElementConstructor" where
  "Symbol_class c = \<lparr>SH_TYPES = [SYMTAB c, DYNSYM c], FromBuffer = Symbol_FromBuffer\<rparr>"

definition Rel_class :: "sh_type \<Rightarrow> Rel ELFElementConstructor" where
  "Rel_class c = \<lparr>SH_TYPES = [REL c, RELA c], FromBuffer = (\<lambda>b e. Rel_FromBuffer b e None)\<rparr>"

definition Dyn_class :: "sh_type \<Rightarrow> ELFElement ELFElementConstructor" where
  "Dyn_class c = \<lparr>SH_TYPES = [DYNAMIC c], FromBuffer = Dyn_FromBuffer\<rparr>"

definition Note_class :: "sh_type \<Rightarrow> ELFElement ELFElementConstructor" where
  "Note_class c = \<lparr>SH_TYPES = [NOTE c], FromBuffer = Note_FromBuffer\<rparr>"

text \<open>
  The loop of \<^verbatim>\<open>SectionHeader.getData\<close>:
  \<^verbatim>\<open>for (let i = 0; i < this.size; i += Number(this.entsize))\<close>, each round copying the
  window \<^verbatim>\<open>value.slice(i, i + Number(this.entsize))\<close> into a new buffer. The getters
  are called anew in every round. A loop that does not end has no result (\<open>None\<close>).
\<close>

partial_function (option) getData_loop ::
  "'T ELFElementConstructor \<Rightarrow> ELFElement \<Rightarrow> Buffer \<Rightarrow> nat \<Rightarrow> 'T list \<Rightarrow> heap
     \<Rightarrow> (error + 'T list \<times> heap) option" where
  "getData_loop elfElement this val i result h =
     (case SectionHeader_size this h of
        Inl e \<Rightarrow> Some (Inl e)
      | Inr sz \<Rightarrow>
          if i < toNumber sz then
            (case SectionHeader_entsize this h of
               Inl e \<Rightarrow> Some (Inl e)
             | Inr es \<Rightarrow>
                 (case SectionHeader_entsize this
                         (snd (Buffer_from_Buffer (slice val i (i + toNumber es)) h)) of
                    Inl e \<Rightarrow> Some (Inl e)
                  | Inr step \<Rightarrow>
                      getData_loop elfElement this val (i + toNumber step)
                        (result @ [FromBuffer elfElement
                           (fst (Buffer_from_Buffer (slice val i (i + toNumber es)) h)) (elf this)])
                        (snd (Buffer_from_Buffer (slice val i (i + toNumber es)) h))))
          else Some (Inr (result, h)))"

declare getData_loop.simps [code]

definition getData ::
  "ELFElement \<Rightarrow> 'T ELFElementConstructor \<Rightarrow> heap \<Rightarrow> (error + 'T list \<times> heap) option" where
  "getData this elfElement h =
     (case SectionHeader_value this h of
        Inl e \<Rightarrow> Some (Inl e)
      | Inr val \<Rightarrow>
          (case SectionHeader_type this h of
             Inl e \<Rightarrow> Some (Inl e)
           | Inr t \<Rightarrow>
               if toNumber t \<notin> set (SH_TYPES elfElement) then Some (Inl InvalidType)
               else getData_loop elfElement this val 0 [] h))"

text \<open>
  The two loops of \<^verbatim>\<open>ELF.FromBuffer\<close> have one shape,
  \<^verbatim>\<open>for (let i = Number(header.shoff); i < Number(header.shoff) + header.shnum * header.shentsize; i += header.shentsize)\<close>,
  over the getters of the section header table and of the program header table; the
  getters are called anew in every round.
\<close>

partial_function (option) table_loop ::
  "(ELFHeader \<Rightarrow> heap \<Rightarrow> error + numeric) \<Rightarrow> (ELFHeader \<Rightarrow> heap \<Rightarrow> error + numeric)
     \<Rightarrow> (ELFHeader \<Rightarrow> heap \<Rightarrow> error + numeric) \<Rightarrow> (Buffer \<Rightarrow> ELFref \<Rightarrow> ELFElement)
     \<Rightarrow> Buffer \<Rightarrow> ELFHeader \<Rightarrow> ELFref \<Rightarrow> nat \<Rightarrow> ELFElement list \<Rightarrow> heap
     \<Rightarrow> (error + ELFElement list \<times> heap) option" where
  "table_loop off num entsize fromBuffer buf hdr e i acc h =
     (case andThen (off hdr h) (\<lambda>start. andThen (num hdr h) (\<lambda>n. andThen (entsize hdr h) (\<lambda>sz.
             Inr (i < toNumber start + toNumber n * toNumber sz)))) of
        Inl err \<Rightarrow> Some (Inl err)
      | Inr continue \<Rightarrow>
          if continue then
            (case entsize hdr h of
               Inl err \<Rightarrow> Some (Inl err)
             | Inr sz \<Rightarrow>
                 (case entsize hdr (snd (Buffer_from_Buffer (slice buf i (i + toNumber sz)) h)) of
                    Inl err \<Rightarrow> Some (Inl err)
                  | Inr step \<Rightarrow>
                      table_loop off num entsize fromBuffer buf hdr e (i + toNumber step)
                        (acc @ [fromBuffer (fst (Buffer_from_Buffer (slice buf i (i + toNumber sz)) h)) e])
                        (snd (Buffer_from_Buffer (slice buf i (i + toNumber sz)) h))))
          else Some (Inr (acc, h)))"

declare table_loop.simps [code]

definition ELF_FromBuffer :: "nat \<Rightarrow> heap \<Rightarrow> (error + ELF \<times> heap) option" where
  "ELF_FromBuffer bufferLike h =
     (let buf = Buffer_from_ArrayBuffer bufferLike h;
          hdr = ELFHeader_FromBuffer buf;
          e = \<lparr>ebuffer = buf, header = hdr\<rparr>
      in case ELFHeader_shoff hdr h of
           Inl err \<Rightarrow> Some (Inl err)
         | Inr shoff \<Rightarrow>
             (case table_loop ELFHeader_shoff ELFHeader_shnum ELFHeader_shentsize
                     SectionHeader_FromBuffer buf hdr e (toNumber shoff) [] h of
                None \<Rightarrow> None
              | Some (Inl err) \<Rightarrow> Some (Inl err)
              | Some (Inr (shs, h1)) \<Rightarrow>
                  (case ELFHeader_phoff hdr h1 of
                     Inl err \<Rightarrow> Some (Inl err)
                   | Inr phoff \<Rightarrow>
                       (case table_loop ELFHeader_phoff ELFHeader_phnum ELFHeader_phentsize
                               ProgramHeader_FromBuffer buf hdr e (toNumber phoff) [] h1 of
                          None \<Rightarrow> None
                        | Some (Inl err) \<Rightarrow> Some (Inl err)
                        | Some (Inr (phs, h2)) \<Rightarrow>
                            Some (Inr (\<lparr>ebuffer = buf, header = hdr, sectionHeaders = shs,
                                         programHeaders = phs\<rparr>, h2))))))"

section \<open>The fields by name\<close>

text \<open>The fields of each class that has setters, and the accessor the source defines
  for each name.\<close>

datatype FileHeader_field =
    e_type | e_machine | e_version | e_entry | e_phoff | e_shoff
  | e_flags | e_ehsize | e_phentsize | e_phnum | e_shentsize | e_shnum
  | e_shstrndx

datatype ProgramHeader_field =
    p_type | p_flags | p_offset | p_vaddr | p_paddr | p_filesz
  | p_memsz | p_align

datatype Symbol_field =
    st_name | st_value | st_size | st_info | st_other | st_shndx

datatype DynamicEntry_field =
    d_tag | d_val | d_ptr

datatype Note_field =
    n_namesz | n_descsz | n_type

datatype Relocation_field =
    r_offset | r_info | r_added

fun ELFHeader_get :: "FileHeader_field \<Rightarrow> ELFHeader \<Rightarrow> heap \<Rightarrow> error + numeric" where
  "ELFHeader_get e_type = ELFHeader_type"
| "ELFHeader_get e_machine = ELFHeader_machine"
| "ELFHeader_get e_version = ELFHeader_version"
| "ELFHeader_get e_entry = ELFHeader_entry"
| "ELFHeader_get e_phoff = ELFHeader_phoff"
| "ELFHeader_get e_shoff = ELFHeader_shoff"
| "ELFHeader_get e_flags = ELFHeader_flags"
| "ELFHeader_get e_ehsize = ELFHeader_ehsize"
| "ELFHeader_get e_phentsize = ELFHeader_phentsize"
| "ELFHeader_get e_phnum = ELFHeader_phnum"
| "ELFHeader_get e_shentsize = ELFHeader_shentsize"
| "ELFHeader_get e_shnum = ELFHeader_shnum"
| "ELFHeader_get e_shstrndx = ELFHeader_shstrndx"

fun ELFHeader_set :: "FileHeader_field \<Rightarrow> ELFHeader \<Rightarrow> numeric \<Rightarrow> heap \<Rightarrow> error + heap" where
  "ELFHeader_set e_type = ELFHeader_set_type"
| "ELFHeader_set e_machine = ELFHeader_set_machine"
| "ELFHeader_set e_version = ELFHeader_set_version"
| "ELFHeader_set e_entry = ELFHeader_set_entry"
| "ELFHeader_set e_phoff = ELFHeader_set_phoff"
| "ELFHeader_set e_shoff = ELFHeader_set_shoff"
| "ELFHeader_set e_flags = ELFHeader_set_flags"
| "ELFHeader_set e_ehsize = ELFHeader_set_ehsize"
| "ELFHeader_set e_phentsize = ELFHeader_set_phentsize"
| "ELFHeader_set e_phnum = ELFHeader_set_phnum"
| "ELFHeader_set e_shentsize = ELFHeader_set_shentsize"
| "ELFHeader_set e_shnum = ELFHeader_set_shnum"
| "ELFHeader_set e_shstrndx = ELFHeader_set_shstrndx"

fun ProgramHeader_get :: "ProgramHeader_field \<Rightarrow> ELFElement \<Rightarrow> heap \<Rightarrow> error + numeric" where
  "ProgramHeader_get p_type = ProgramHeader_type"
| "ProgramHeader_get p_flags = ProgramHeader_flags"
| "ProgramHeader_get p_offset = ProgramHeader_offset"
| "ProgramHeader_get p_vaddr = ProgramHeader_vaddr"
| "ProgramHeader_get p_paddr = ProgramHeader_paddr"
| "ProgramHeader_get p_filesz = ProgramHeader_filesz"
| "ProgramHeader_get p_memsz = ProgramHeader_memsz"
| "ProgramHeader_get p_align = ProgramHeader_align"

fun ProgramHeader_set :: "ProgramHeader_field \<Rightarrow> ELFElement \<Rightarrow> numeric \<Rightarrow> heap \<Rightarrow> error + heap" where
  "ProgramHeader_set p_type = ProgramHeader_set_type"
| "ProgramHeader_set p_flags = ProgramHeader_set_flags"
| "ProgramHeader_set p_offset = ProgramHeader_set_offset"
| "ProgramHeader_set p_vaddr = ProgramHeader_set_vaddr"
| "ProgramHeader_set p_paddr = ProgramHeader_set_paddr"
| "ProgramHeader_set p_filesz = ProgramHeader_set_filesz"
| "ProgramHeader_set p_memsz = ProgramHeader_set_memsz"
| "ProgramHeader_set p_align = ProgramHeader_set_align"

fun Symbol_get :: "Symbol_field \<Rightarrow> ELFElement \<Rightarrow> heap \<Rightarrow> error + numeric" where
  "Symbol_get st_name = Symbol_name"
| "Symbol_get st_value = Symbol_value"
| "Symbol_get st_size = Symbol_size"
| "Symbol_get st_info = Symbol_info"
| "Symbol_get st_other = Symbol_other"
| "Symbol_get st_shndx = Symbol_shndx"

fun Symbol_set :: "Symbol_field \<Rightarrow> ELFElement \<Rightarrow> numeric \<Rightarrow> heap \<Rightarrow> error + heap" where
  "Symbol_set st_name = Symbol_set_name"
| "Symbol_set st_value = Symbol_set_value"
| "Symbol_set st_size = Symbol_set_size"
| "Symbol_set st_info = Symbol_set_info"
| "Symbol_set st_other = Symbol_set_other"
| "Symbol_set st_shndx = Symbol_set_shndx"

fun Dyn_get :: "DynamicEntry_field \<Rightarrow> ELFElement \<Rightarrow> heap \<Rightarrow> error + numeric" where
  "Dyn_get d_tag = Dyn_tag"
| "Dyn_get d_val = Dyn_val"
| "Dyn_get d_ptr = Dyn_ptr"

fun Dyn_set :: "DynamicEntry_field \<Rightarrow> ELFElement \<Rightarrow> numeric \<Rightarrow> heap \<Rightarrow> error + heap" where
  "Dyn_set d_tag = Dyn_set_tag"
| "Dyn_set d_val = Dyn_set_val"
| "Dyn_set d_ptr = Dyn_set_ptr"

fun Note_get :: "Note_field \<Rightarrow> ELFElement \<Rightarrow> heap \<Rightarrow> error + numeric" where
  "Note_get n_namesz = Note_namesz"
| "Note_get n_descsz = Note_descsz"
| "Note_get n_type = Note_type"

fun Note_set :: "Note_field \<Rightarrow> ELFElement \<Rightarrow> numeric \<Rightarrow> heap \<Rightarrow> error + heap" where
  "Note_set n_namesz = Note_set_namesz"
| "Note_set n_descsz = Note_set_descsz"
| "Note_set n_type = Note_set_type"

fun Rel_get :: "Relocation_field \<Rightarrow> Rel \<Rightarrow> heap \<Rightarrow> error + jsval" where
  "Rel_get r_offset = (\<lambda>this h. andThen (Rel_offset this h) (\<lambda>v. Inr (Numeric v)))"
| "Rel_get r_info = (\<lambda>this h. andThen (Rel_info this h) (\<lambda>v. Inr (Numeric v)))"
| "Rel_get r_added = Rel_added"

fun Rel_set :: "Relocation_field \<Rightarrow> Rel \<Rightarrow> numeric \<Rightarrow> heap \<Rightarrow> error + heap" where
  "Rel_set r_offset = Rel_set_offset"
| "Rel_set r_info = Rel_set_info"
| "Rel_set r_added = Rel_set_added"

section \<open>The specification's field codec and layout tables\<close>

text \<open>
  These definitions follow the words of the specification, for comparison with the
  accessors above: the format variant and its resolution from the identification
  bytes, the widths of the field codec, and the layout tables, each entry giving the
  offset in the 32-bit layout, the offset in the 64-bit layout and the width.
\<close>

datatype wordWidth = W32 | W64

datatype endianness = LE | BE

record FormatVariant =
  wordWidth :: wordWidth
  endianness :: endianness

definition resolveVariant :: "byte list \<Rightarrow> FormatVariant" where
  "resolveVariant bs =
     \<lparr>wordWidth = (if bs ! 4 = 1 then W32 else W64),
      endianness = (if bs ! 5 = 1 then LE else BE)\<rparr>"

datatype width = u8 | u16 | u32 | u64 | nativeWord

fun widthBytes :: "wordWidth \<Rightarrow> width \<Rightarrow> nat" where
  "widthBytes w u8 = 1"
| "widthBytes w u16 = 2"
| "widthBytes w u32 = 4"
| "widthBytes w u64 = 8"
| "widthBytes W32 nativeWord = 4"
| "widthBytes W64 nativeWord = 8"

fun wideInteger :: "wordWidth \<Rightarrow> width \<Rightarrow> bool" where
  "wideInteger w u64 = True"
| "wideInteger W64 nativeWord = True"
| "wideInteger w other = False"

definition bytesValue :: "endianness \<Rightarrow> byte list \<Rightarrow> nat" where
  "bytesValue en bs =
     foldl (\<lambda>acc b. 256 * acc + unat b) 0 (case en of BE \<Rightarrow> bs | LE \<Rightarrow> rev bs)"

definition codec_read :: "byte list \<Rightarrow> nat \<Rightarrow> width \<Rightarrow> FormatVariant \<Rightarrow> error + numeric" where
  "codec_read bs off w v =
     (if off + widthBytes (wordWidth v) w \<le> length bs
      then Inr ((if wideInteger (wordWidth v) w then BigInt else Number)
             (bytesValue (endianness v) (take (widthBytes (wordWidth v) w) (drop off bs))))
      else Inl RangeError)"

definition layout_read ::
  "('f \<Rightarrow> nat \<times> nat \<times> width) \<Rightarrow> 'f \<Rightarrow> byte list \<Rightarrow> FormatVariant \<Rightarrow> error + numeric" where
  "layout_read layout f bs v =
     (case layout f of (off32, off64, w) \<Rightarrow>
        codec_read bs (case wordWidth v of W32 \<Rightarrow> off32 | W64 \<Rightarrow> off64) w v)"

fun FileHeader_layout :: "FileHeader_field \<Rightarrow> nat \<times> nat \<times> width" where
  "FileHeader_layout e_type = (0x10, 0x10, u16)"
| "FileHeader_layout e_machine = (0x12, 0x12, u16)"
| "FileHeader_layout e_version = (0x14, 0x14, u32)"
| "FileHeader_layout e_entry = (0x18, 0x18, nativeWord)"
| "FileHeader_layout e_phoff = (0x1c, 0x20, nativeWord)"
| "FileHeader_layout e_shoff = (0x20, 0x28, nativeWord)"
| "FileHeader_layout e_flags = (0x24, 0x30, u32)"
| "FileHeader_layout e_ehsize = (0x28, 0x34, u16)"
| "FileHeader_layout e_phentsize = (0x2a, 0x36, u16)"
| "FileHeader_layout e_phnum = (0x2c, 0x38, u16)"
| "FileHeader_layout e_shentsize = (0x2e, 0x3a, u16)"
| "FileHeader_layout e_shnum = (0x30, 0x3c, u16)"
| "FileHeader_layout e_shstrndx = (0x32, 0x3e, u16)"

fun ProgramHeader_layout :: "ProgramHeader_field \<Rightarrow> nat \<times> nat \<times> width" where
  "ProgramHeader_layout p_type = (0, 0, u32)"
| "ProgramHeader_layout p_flags = (0x18, 4, u32)"
| "ProgramHeader_layout p_offset = (4, 8, nativeWord)"
| "ProgramHeader_layout p_vaddr = (8, 0x10, nativeWord)"
| "ProgramHeader_layout p_paddr = (0xc, 0x18, nativeWord)"
| "ProgramHeader_layout p_filesz = (0x10, 0x20, nativeWord)"
| "ProgramHeader_layout p_memsz = (0x14, 0x28, nativeWord)"
| "ProgramHeader_layout p_align = (0x1c, 0x30, nativeWord)"

fun Symbol_layout :: "Symbol_field \<Rightarrow> nat \<times> nat \<times> width" where
  "Symbol_layout st_name = (0, 0, u32)"
| "Symbol_layout st_value = (4, 8, nativeWord)"
| "Symbol_layout st_size = (8, 0x10, nativeWord)"
| "Symbol_layout st_info = (0xc, 4, u8)"
| "Symbol_layout st_other = (0xd, 5, u8)"
| "Symbol_layout st_shndx = (0xe, 6, u16)"

fun DynamicEntry_layout :: "DynamicEntry_field \<Rightarrow> nat \<times> nat \<times> width" where
  "DynamicEntry_layout d_tag = (0, 0, nativeWord)"
| "DynamicEntry_layout d_val = (4, 8, nativeWord)"
| "DynamicEntry_layout d_ptr = (4, 8, nativeWord)"

fun Note_layout :: "Note_field \<Rightarrow> nat \<times> nat \<times> width" where
  "Note_layout n_namesz = (0, 0, nativeWord)"
| "Note_layout n_descsz = (4, 8, nativeWord)"
| "Note_layout n_type = (8, 16, nativeWord)"

fun Relocation_layout :: "Relocation_field \<Rightarrow> nat \<times> nat \<times> width" where
  "Relocation_layout r_offset = (0, 0, nativeWord)"
| "Relocation_layout r_info = (4, 8, nativeWord)"
| "Relocation_layout r_added = (8, 16, nativeWord)"

text \<open>A value that a field of the given width can hold under a word width: a number
  below the width's bound, and for a native word a number on the 32-bit variant and a
  wide integer on the 64-bit variant.\<close>

fun fits :: "wordWidth \<Rightarrow> width \<Rightarrow> numeric \<Rightarrow> bool" where
  "fits w u8 (Number n) = (n < 2 ^ 8)"
| "fits w u16 (Number n) = (n < 2 ^ 16)"
| "fits w u32 (Number n) = (n < 2 ^ 32)"
| "fits w u64 (BigInt n) = (n < 2 ^ 64)"
| "fits W32 nativeWord (Number n) = (n < 2 ^ 32)"
| "fits W64 nativeWord (BigInt n) = (n < 2 ^ 64)"
| "fits w wd v = False"

definition variantOf :: "bool \<Rightarrow> bool \<Rightarrow> FormatVariant" where
  "variantOf w32 le =
     \<lparr>wordWidth = (if w32 then W32 else W64), endianness = (if le then LE else BE)\<rparr>"

section \<open>Example files\<close>

text \<open>
  Small files for evaluating the decoder. A 32-bit little-endian file header with the
  given table descriptors, a 32-bit section header with the given type, offset, size
  and entry size, and a 32-bit program header; the numeric section types are those of
  the ELF format.
\<close>

definition header32 :: "byte \<Rightarrow> byte \<Rightarrow> byte \<Rightarrow> byte \<Rightarrow> byte \<Rightarrow> byte \<Rightarrow> byte list" where
  "header32 phoff shoff phentsize phnum shentsize shnum =
     [0x7f, 0x45, 0x4c, 0x46, 1, 1, 1, 0, 0, 0, 0, 0, 0, 0, 0, 0,
      2, 0, 3, 0, 1, 0, 0, 0, 0, 0, 0, 0,
      phoff, 0, 0, 0, shoff, 0, 0, 0, 0, 0, 0, 0,
      0x34, 0, phentsize, 0, phnum, 0, shentsize, 0, shnum, 0, 0, 0]"

definition section32 :: "byte \<Rightarrow> byte \<Rightarrow> byte \<Rightarrow> byte \<Rightarrow> byte list" where
  "section32 ty off sz es =
     [0, 0, 0, 0, ty, 0, 0, 0, 0, 0, 0, 0, 0, 0, 0, 0, off, 0, 0, 0, sz, 0, 0, 0,
      0, 0, 0, 0, 0, 0, 0, 0, 0, 0, 0, 0, es, 0, 0, 0]"

definition segment32 :: "byte list" where
  "segment32 =
     [1, 0, 0, 0, 0, 0x10, 0, 0, 0, 0, 0, 0, 0, 0, 0, 0, 0, 2, 0, 0, 0, 2, 0, 0,
      5, 0, 0, 0, 0, 0x10, 0, 0]"

definition symbols32 :: "byte list" where
  "symbols32 =
     [1, 0, 0, 0, 0x10, 0, 0, 0, 4, 0, 0, 0, 0x12, 0, 1, 0,
      7, 0, 0, 0, 0x20, 0, 0, 0, 8, 0, 0, 0, 0x11, 0, 0xf1, 0xff]"

definition rela32 :: "byte list" where
  "rela32 = [0x10, 0, 0, 0, 1, 2, 0, 0, 4, 0, 0, 0]"

definition elf_sh_type :: sh_type where
  "elf_sh_type = \<lparr>SYMTAB = 2, DYNSYM = 11, REL = 9, RELA = 4, DYNAMIC = 6, NOTE = 7\<rparr>"

text \<open>A file with one program header, a symbol table of two symbols and a RELA
  section of one record.\<close>

definition file32 :: "byte list" where
  "file32 =
     header32 0x34 0x54 0x20 1 0x28 2 @ segment32 @
     section32 2 0xa4 0x20 0x10 @ section32 4 0xc4 0x0c 0x0c @ symbols32 @ rela32"

text \<open>A file whose section header table runs past its end: the one entry of 40 bytes
  starts at 0x34 and the file has 64 bytes.\<close>

definition file32_truncated :: "byte list" where
  "file32_truncated = header32 0 0x34 0 0 0x28 1 @ [0, 0, 0, 0, 0, 0, 0, 0, 0, 0, 0, 0]"

text \<open>A file header that declares one section header of size zero.\<close>

definition file32_zero_entsize :: "byte list" where
  "file32_zero_entsize = header32 0 0x34 0 0 0 1"

text \<open>A file with two sections of four bytes and entry size zero: one of type 1
  (PROGBITS) and a symbol table.\<close>

definition file32_zero_records :: "byte list" where
  "file32_zero_records = header32 0 0x34 0 0 0x28 2 @ section32 1 0 4 0 @ section32 2 0 4 0"

text \<open>The 64-bit little-endian file of the specification's scenario: a file header
  with phoff 0x40, phentsize 0x38, phnum 1 and shoff 0, and one program header of
  type 1 (LOAD) with flags 5, offset 0x1000 and filesz 0x200.\<close>

definition header64 :: "byte list" where
  "header64 =
     [0x7f, 0x45, 0x4c, 0x46, 2, 1, 1, 0, 0, 0, 0, 0, 0, 0, 0, 0,
      2, 0, 0x3e, 0, 1, 0, 0, 0, 0, 0, 0, 0, 0, 0, 0, 0,
      0x40, 0, 0, 0, 0, 0, 0, 0, 0, 0, 0, 0, 0, 0, 0, 0,
      0, 0, 0, 0, 0x40, 0, 0x38, 0, 1, 0, 0x40, 0, 0, 0, 0, 0]"

definition segment64 :: "byte list" where
  "segment64 =
     [1, 0, 0, 0, 5, 0, 0, 0, 0, 0x10, 0, 0, 0, 0, 0, 0,
      0, 0, 0, 0, 0, 0, 0, 0, 0, 0, 0, 0, 0, 0, 0, 0,
      0, 2, 0, 0, 0, 0, 0, 0, 0, 2, 0, 0, 0, 0, 0, 0,
      0, 0x10, 0, 0, 0, 0, 0, 0]"

definition file64 :: "byte list" where
  "file64 = header64 @ segment64"

text \<open>The identification bytes of a 32-bit big-endian file, and a dynamic entry.\<close>

definition ident32BE :: "byte list" where
  "ident32BE = [0x7f, 0x45, 0x4c, 0x46, 1, 2, 1, 0, 0, 0, 0, 0, 0, 0, 0, 0]"

text \<open>The reference to a decoded file whose buffer is the whole ArrayBuffer at
  address \<open>a\<close>, of \<open>n\<close> bytes, and an element whose buffer is the whole ArrayBuffer
  at address \<open>a\<close>.\<close>

definition elfref :: "nat \<Rightarrow> nat \<Rightarrow> ELFref" where
  "elfref a n =
     \<lparr>ebuffer = \<lparr>arrayBuffer = a, byteOffset = 0, byteLength = n\<rparr>,
      header = \<lparr>hbuffer = \<lparr>arrayBuffer = a, byteOffset = 0, byteLength = n\<rparr>\<rparr>\<rparr>"

definition element :: "nat \<Rightarrow> nat \<Rightarrow> ELFref \<Rightarrow> ELFElement" where
  "element a n e = \<lparr>buffer = \<lparr>arrayBuffer = a, byteOffset = 0, byteLength = n\<rparr>, elf = e\<rparr>"

section \<open>Notions for stating the properties\<close>

text \<open>A write that changes one ArrayBuffer only, in place, and none of its bytes
  before \<open>off\<close>.\<close>

definition only_changes :: "nat \<Rightarrow> nat \<Rightarrow> heap \<Rightarrow> heap \<Rightarrow> bool" where
  "only_changes a off h h' =
     (length h' = length h \<and> length (h' ! a) = length (h ! a) \<and>
      take off (h' ! a) = take off (h ! a) \<and> (\<forall>b. b \<noteq> a \<longrightarrow> h' ! b = h ! b))"

text \<open>The buffers that \<open>n\<close> rounds of a walk make, from position \<open>i\<close> in steps of
  \<open>s\<close>: each round copies the window \<open>slice buf i (i + s)\<close> into a new ArrayBuffer.\<close>

fun copies :: "Buffer \<Rightarrow> nat \<Rightarrow> nat \<Rightarrow> nat \<Rightarrow> heap \<Rightarrow> Buffer list \<times> heap" where
  "copies buf i s 0 h = ([], h)"
| "copies buf i s (Suc n) h =
     (fst (Buffer_from_Buffer (slice buf i (i + s)) h) #
        fst (copies buf (i + s) s n (snd (Buffer_from_Buffer (slice buf i (i + s)) h))),
      snd (copies buf (i + s) s n (snd (Buffer_from_Buffer (slice buf i (i + s)) h))))"

text \<open>The bytes of an ArrayBuffer in the window from \<open>start\<close> to \<open>end\<close>, both clamped
  to its length.\<close>

definition window :: "byte list \<Rightarrow> nat \<Rightarrow> nat \<Rightarrow> byte list" where
  "window bs start end = take (min end (length bs) - min start (length bs)) (drop start bs)"

text \<open>An element reports the variant \<open>v\<close>: its \<^verbatim>\<open>is32bit\<close> and \<^verbatim>\<open>isLE\<close> return
  the word width and the byte order of \<open>v\<close>.\<close>

definition reports :: "error + bool \<Rightarrow> error + bool \<Rightarrow> FormatVariant \<Rightarrow> bool" where
  "reports w32 le v = (w32 = Inr (wordWidth v = W32) \<and> le = Inr (endianness v = LE))"

text \<open>The width of a field in a layout table, and the word width that \<^verbatim>\<open>is32bit\<close>
  stands for.\<close>

definition fieldWidth :: "('f \<Rightarrow> nat \<times> nat \<times> width) \<Rightarrow> 'f \<Rightarrow> width" where
  "fieldWidth layout f = snd (snd (layout f))"

definition wordWidthOf :: "bool \<Rightarrow> wordWidth" where
  "wordWidthOf w32 = (if w32 then W32 else W64)"

text \<open>A dynamic entry of a 32-bit big-endian file.\<close>

definition dyn32BE :: "byte list" where
  "dyn32BE = [0, 0, 0, 1, 0, 0, 0, 0x10]"

text \<open>The heap \<open>h'\<close> extends the heap \<open>h\<close>, whose ArrayBuffers it leaves as they are,
  and the addresses \<open>as\<close> are those of distinct ArrayBuffers allocated after \<open>h\<close>.\<close>

definition fresh :: "heap \<Rightarrow> nat list \<Rightarrow> heap \<Rightarrow> bool" where
  "fresh h as h' =
     (take (length h) h' = h \<and> (\<forall>a\<in>set as. length h \<le> a \<and> a < length h') \<and> distinct as)"

section \<open>The field codec\<close>

lemma length_nat_le: "length (nat_le n v) = n"
  by (induction n arbitrary: v) simp_all

lemma le_nat_nat_le: "le_nat (nat_le n v) = v mod 256 ^ n"
proof (induction n arbitrary: v)
  case 0
  show ?case by simp
next
  case (Suc n)
  have "unat (of_nat (v mod 256) :: byte) = v mod 256"
    by (simp add: unat_of_nat)
  then have "le_nat (nat_le (Suc n) v) = v mod 256 + 256 * (v div 256 mod 256 ^ n)"
    by (simp add: Suc)
  also have "\<dots> = v mod 256 ^ Suc n"
    by (simp add: mod_mult2_eq)
  finally show ?case .
qed

lemma length_encode: "length (encode le n v) = n"
  by (simp add: encode_def length_nat_le)

lemma decode_encode: "decode le (encode le n v) = v mod 256 ^ n"
  by (simp add: decode_def encode_def le_nat_nat_le)

lemma setUint_length: "setUint n bs off v le = Inr bs' \<Longrightarrow> length bs' = length bs"
  by (auto simp: setUint_def length_encode split: if_splits)

lemma getUint_setUint:
  "setUint n bs off v le = Inr bs' \<Longrightarrow> getUint n bs' off le = Inr (v mod 256 ^ n)"
  by (auto simp: setUint_def getUint_def length_encode decode_encode split: if_splits)

lemma setUint_nth_before:
  "setUint n bs off v le = Inr bs' \<Longrightarrow> i < off \<Longrightarrow> bs' ! i = bs ! i"
  by (auto simp: setUint_def nth_append split: if_splits)

lemma setUint_take_before:
  "setUint n bs off v le = Inr bs' \<Longrightarrow> k \<le> off \<Longrightarrow> take k bs' = take k bs"
  by (auto simp: setUint_def split: if_splits)


section \<open>The file header's layout\<close>

lemma unat_byte_eq_1: "(unat (b :: byte) = Suc 0) = (b = 1)"
  by (simp add: word_unat_eq_iff)

lemma getUint8_nth: "getUint8 bs i = (if i < length bs then Inr (unat (bs ! i)) else Inl RangeError)"
  by (auto simp: getUint8_def getUint_def decode_def take_Suc_conv_app_nth hd_drop_conv_nth Suc_le_eq)

lemma ELFHeader_isLE_eq:
  "ELFHeader_isLE this h =
     (if 9 \<le> length (h ! hview this) then Inr ((h ! hview this) ! 5 = 1) else Inl RangeError)"
  by (simp add: ELFHeader_isLE_def ELFHeader_ident_def getUint8_nth andThen_def unat_byte_eq_1)

lemma ELFHeader_is32bit_eq:
  "ELFHeader_is32bit this h =
     (if 9 \<le> length (h ! hview this) then Inr ((h ! hview this) ! 4 = 1) else Inl RangeError)"
  by (simp add: ELFHeader_is32bit_def ELFHeader_ident_def getUint8_nth andThen_def unat_byte_eq_1)

lemma foldl_rev_le_nat: "foldl (\<lambda>acc b. 256 * acc + unat b) 0 (rev bs) = le_nat bs"
  by (induction bs) simp_all

lemma bytesValue_decode: "bytesValue (if le then LE else BE) bs = decode le bs"
  using foldl_rev_le_nat [of bs] foldl_rev_le_nat [of "rev bs"]
  by (simp add: bytesValue_def decode_def)

lemma rev_short: "length xs \<le> Suc 0 \<Longrightarrow> rev xs = xs"
  by (cases xs) simp_all

lemma bytesValue_single: "length bs \<le> Suc 0 \<Longrightarrow> bytesValue en bs = decode True bs"
  using foldl_rev_le_nat [of bs]
  by (cases en) (simp_all add: bytesValue_def decode_def rev_short)


lemmas ELFHeader_getters =
  ELFHeader_type_def ELFHeader_machine_def ELFHeader_version_def ELFHeader_entry_def
  ELFHeader_phoff_def ELFHeader_shoff_def ELFHeader_flags_def ELFHeader_ehsize_def
  ELFHeader_phentsize_def ELFHeader_phnum_def ELFHeader_shentsize_def ELFHeader_shnum_def
  ELFHeader_shstrndx_def

lemma bytesValue_LE: "bytesValue LE bs = decode True bs"
  using bytesValue_decode [of True bs] by simp

lemma bytesValue_BE: "bytesValue BE bs = decode False bs"
  using bytesValue_decode [of False bs] by simp

lemmas read_defs =
  readUint8_def readUint16_def readUint32_def readBigUint64_def
  getUint8_def getUint16_def getUint32_def getBigUint64_def getUint_def
  ifelse_def ternary_def andThen_def

lemmas codec_defs =
  layout_read_def codec_read_def resolveVariant_def bytesValue_LE bytesValue_BE bytesValue_single

lemma ELFHeader_get_long:
  assumes "9 \<le> length (h ! hview this)"
  shows "ELFHeader_get f this h =
     layout_read FileHeader_layout f (h ! hview this) (resolveVariant (h ! hview this))"
  using assms
  by (cases f)
    (simp_all add: ELFHeader_getters ELFHeader_isLE_eq ELFHeader_is32bit_eq read_defs codec_defs)

lemma ELFHeader_get_short:
  assumes "length (h ! hview this) < 9"
  shows "ELFHeader_get f this h = Inl RangeError"
    and "layout_read FileHeader_layout f (h ! hview this) v = Inl RangeError"
  using assms
  by (cases f; cases "wordWidth v";
      simp add: ELFHeader_getters ELFHeader_isLE_eq ELFHeader_is32bit_eq layout_read_def
        readUint16_def readUint32_def readBigUint64_def ifelse_def ternary_def andThen_def codec_read_def)+

text \<open>
  Claim C5. The getters of the file header decode their fields at the offsets and
  widths of the specification's table (type u16 at 0x10, machine u16 at 0x12, version
  u32 at 0x14, entry native word at 0x18, phoff at 0x1c or 0x20, shoff at 0x20 or 0x28,
  flags u32 at 0x24 or 0x30, ehsize, phentsize, phnum, shentsize, shnum and shstrndx
  u16 at 0x28 to 0x32 or 0x34 to 0x3e), the layout being selected by the word width
  that the identification bytes give: each getter returns what the specification's
  codec reads at the table's entry, and fails where the codec fails.
\<close>

theorem ELFHeader_layout_as_specified:
  "ELFHeader_get f this h =
     layout_read FileHeader_layout f (h ! hview this) (resolveVariant (h ! hview this))"
proof (cases "9 \<le> length (h ! hview this)")
  case True
  then show ?thesis by (rule ELFHeader_get_long)
next
  case False
  then have "length (h ! hview this) < 9" by simp
  then show ?thesis by (simp add: ELFHeader_get_short)
qed

section \<open>The program header's layout\<close>

lemma isLE_eq:
  "isLE this h =
     (if 9 \<le> length (h ! hview (header (elf this)))
      then Inr ((h ! hview (header (elf this))) ! 5 = 1) else Inl RangeError)"
  by (simp add: isLE_def ELF_isLE_def ELFHeader_isLE_eq)

lemma is32bit_eq:
  "is32bit this h =
     (if 9 \<le> length (h ! hview (header (elf this)))
      then Inr ((h ! hview (header (elf this))) ! 4 = 1) else Inl RangeError)"
  by (simp add: is32bit_def ELF_is32bit_def ELFHeader_is32bit_eq)

lemmas ProgramHeader_getters =
  ProgramHeader_type_def ProgramHeader_flags_def ProgramHeader_offset_def ProgramHeader_vaddr_def
  ProgramHeader_paddr_def ProgramHeader_filesz_def ProgramHeader_memsz_def ProgramHeader_align_def

text \<open>
  Claim C6. The getters of a program header decode their fields at the offsets of the
  specification for each word width: type u32 at 0, offset at 4 or 8, vaddr at 8 or
  0x10, paddr at 0xc or 0x18, filesz at 0x10 or 0x20, memsz at 0x14 or 0x28 and align
  at 0x1c or 0x30 as native words, and flags as a u32 at 0x18 in the 32-bit layout
  but at 4 in the 64-bit layout. Each getter returns what the specification's codec
  reads from the element's bytes at the table's entry, under the variant of the file's
  identification bytes (which must be there to be read).
\<close>

theorem ProgramHeader_layout_as_specified:
  assumes "9 \<le> length (h ! hview (header (elf this)))"
  shows "ProgramHeader_get f this h =
     layout_read ProgramHeader_layout f (h ! view this)
       (resolveVariant (h ! hview (header (elf this))))"
  using assms
  by (cases f)
    (simp_all add: ProgramHeader_getters isLE_eq is32bit_eq read_defs codec_defs)

section \<open>Writes through a view\<close>

lemma writeUint8_Inr:
  "writeUint8 h a (Inr off) v = Inr h' \<Longrightarrow>
     \<exists>n bs. v = Number n \<and> setUint 1 (h ! a) off n True = Inr bs \<and> h' = h[a := bs]"
  by (cases v) (auto simp: writeUint8_def setUint8_def andThen_def split: sum.splits)

lemma writeUint16_Inr:
  "writeUint16 h a (Inr off) v (Inr le) = Inr h' \<Longrightarrow>
     \<exists>n bs. v = Number n \<and> setUint 2 (h ! a) off n le = Inr bs \<and> h' = h[a := bs]"
  by (cases v) (auto simp: writeUint16_def setUint16_def andThen_def split: sum.splits)

lemma writeUint32_Inr:
  "writeUint32 h a (Inr off) v (Inr le) = Inr h' \<Longrightarrow>
     \<exists>n bs. v = Number n \<and> setUint 4 (h ! a) off n le = Inr bs \<and> h' = h[a := bs]"
  by (cases v) (auto simp: writeUint32_def setUint32_def andThen_def split: sum.splits)

lemma writeBigUint64_Inr:
  "writeBigUint64 h a (Inr off) v (Inr le) = Inr h' \<Longrightarrow>
     \<exists>n bs. v = BigInt n \<and> setUint 8 (h ! a) off n le = Inr bs \<and> h' = h[a := bs]"
  by (cases v) (auto simp: writeBigUint64_def setBigUint64_def andThen_def split: sum.splits)

lemma write_Inl [simp]:
  "writeUint8 h a (Inl e) v = Inl e"
  "writeUint16 h a (Inl e) v le = Inl e"
  "writeUint32 h a (Inl e) v le = Inl e"
  "writeBigUint64 h a (Inl e) v le = Inl e"
  "writeUint16 h a (Inr off) v (Inl e) = Inl e"
  "writeUint32 h a (Inr off) v (Inl e) = Inl e"
  "writeBigUint64 h a (Inr off) v (Inl e) = Inl e"
  by (simp_all add: writeUint8_def writeUint16_def writeUint32_def writeBigUint64_def andThen_def)

lemma only_changes_update:
  "setUint n (h ! a) off v le = Inr bs \<Longrightarrow> k \<le> off \<Longrightarrow> only_changes a k h (h[a := bs])"
  by (cases "a < length h")
    (auto simp: only_changes_def setUint_length setUint_take_before list_update_beyond)

lemma write_only_changes:
  "writeUint8 h a (Inr off) v = Inr h' \<Longrightarrow> k \<le> off \<Longrightarrow> only_changes a k h h'"
  "writeUint16 h a (Inr off) v (Inr le) = Inr h' \<Longrightarrow> k \<le> off \<Longrightarrow> only_changes a k h h'"
  "writeUint32 h a (Inr off) v (Inr le) = Inr h' \<Longrightarrow> k \<le> off \<Longrightarrow> only_changes a k h h'"
  "writeBigUint64 h a (Inr off) v (Inr le) = Inr h' \<Longrightarrow> k \<le> off \<Longrightarrow> only_changes a k h h'"
  by (auto dest!: writeUint8_Inr writeUint16_Inr writeUint32_Inr writeBigUint64_Inr
      intro: only_changes_update)

text \<open>Reading after a write at the same place.\<close>

lemma read_write_8:
  "writeUint8 h a (Inr off) v = Inr h' \<Longrightarrow> a < length h \<Longrightarrow> fits w u8 v \<Longrightarrow>
     readUint8 h' a (Inr off) = Inr v"
  by (cases v) (auto dest!: writeUint8_Inr getUint_setUint simp: readUint8_def getUint8_def andThen_def)

lemma read_write_16:
  "writeUint16 h a (Inr off) v (Inr le) = Inr h' \<Longrightarrow> a < length h \<Longrightarrow> fits w u16 v \<Longrightarrow>
     readUint16 h' a (Inr off) (Inr le) = Inr v"
  by (cases v) (auto dest!: writeUint16_Inr getUint_setUint simp: readUint16_def getUint16_def andThen_def)

lemma read_write_32:
  "writeUint32 h a (Inr off) v (Inr le) = Inr h' \<Longrightarrow> a < length h \<Longrightarrow> fits w u32 v \<Longrightarrow>
     readUint32 h' a (Inr off) (Inr le) = Inr v"
  by (cases v) (auto dest!: writeUint32_Inr getUint_setUint simp: readUint32_def getUint32_def andThen_def)

lemma read_write_64:
  "writeBigUint64 h a (Inr off) v (Inr le) = Inr h' \<Longrightarrow> a < length h \<Longrightarrow> fits w u64 v \<Longrightarrow>
     readBigUint64 h' a (Inr off) (Inr le) = Inr v"
  by (cases v) (auto dest!: writeBigUint64_Inr getUint_setUint simp: readBigUint64_def getBigUint64_def andThen_def)


lemmas ProgramHeader_setters =
  ProgramHeader_set_type_def ProgramHeader_set_flags_def ProgramHeader_set_offset_def
  ProgramHeader_set_vaddr_def ProgramHeader_set_paddr_def ProgramHeader_set_filesz_def
  ProgramHeader_set_memsz_def ProgramHeader_set_align_def

lemma ternary_simps [simp]:
  "ternary (Inr w) a b = Inr (if w then a else b)"
  "ternary (Inl e) a b = Inl e"
  by (simp_all add: ternary_def andThen_def)

lemma ifelse_simps [simp]:
  "ifelse (Inr w) x y = (if w then x else y)"
  "ifelse (Inl e) x y = Inl e"
  by (simp_all add: ifelse_def andThen_def)

lemma variant_cases:
  obtains (short) "isLE this h = Inl RangeError" "is32bit this h = Inl RangeError"
  | (long) w le where "isLE this h = Inr le" "is32bit this h = Inr w"
  by (cases "9 \<le> length (h ! hview (header (elf this)))") (auto simp: isLE_eq is32bit_eq)

lemma ProgramHeader_set_only_changes:
  assumes "ProgramHeader_set f this v h = Inr h'"
  shows "only_changes (view this) 0 h h'"
proof (cases this h rule: variant_cases)
  case short
  with assms show ?thesis
    by (cases f) (simp_all add: ProgramHeader_setters split: if_splits)
next
  case (long w le)
  with assms show ?thesis
    by (cases f) (auto simp: ProgramHeader_setters split: if_splits intro: write_only_changes)
qed

lemma variant_frame:
  assumes "only_changes a 0 h h'" "a \<noteq> hview (header (elf this))"
  shows "isLE this h' = isLE this h" "is32bit this h' = is32bit this h"
  using assms by (simp_all add: only_changes_def isLE_eq is32bit_eq)

lemma ProgramHeader_roundtrip:
  assumes set: "ProgramHeader_set f this v h = Inr h'"
    and w: "is32bit this h = Inr w"
    and fits: "fits (if w then W32 else W64) (snd (snd (ProgramHeader_layout f))) v"
    and own: "view this \<noteq> hview (header (elf this))"
    and a: "view this < length h"
  shows "ProgramHeader_get f this h' = Inr v"
proof -
  from w obtain le where le: "isLE this h = Inr le"
    by (cases this h rule: variant_cases) auto
  have oc: "only_changes (view this) 0 h h'"
    using set by (rule ProgramHeader_set_only_changes)
  have le': "isLE this h' = Inr le" and w': "is32bit this h' = Inr w"
    using variant_frame [OF oc own] le w by simp_all
  show ?thesis
    using set fits a
    by (cases f; cases v; cases w)
      (auto simp: ProgramHeader_setters ProgramHeader_getters le w le' w'
        intro: read_write_32 [where w = W32] read_write_64 [where w = W64])
qed

section \<open>The buffers a walk makes\<close>

lemma Buffer_from_Buffer_simps [simp]:
  "fst (Buffer_from_Buffer b h) = \<lparr>arrayBuffer = length h, byteOffset = 0, byteLength = byteLength b\<rparr>"
  "snd (Buffer_from_Buffer b h) = h @ [contents b h]"
  by (simp_all add: Buffer_from_Buffer_def)

lemma arrayBuffer_slice [simp]: "arrayBuffer (slice b s e) = arrayBuffer b"
  by (simp add: slice_def Let_def)

lemma contents_append [simp]:
  "arrayBuffer b < length h \<Longrightarrow> contents b (h @ xs) = contents b h"
  by (simp add: contents_def nth_append)

lemma length_copies [simp]: "length (fst (copies buf i s n h)) = n"
  by (induction n arbitrary: i h) simp_all



lemma length_snd_copies [simp]: "length (snd (copies buf i s n h)) = length h + n"
  by (induction n arbitrary: i h) simp_all


section \<open>The loops of the table walks\<close>



lemma getData_loop_copies:
  assumes ok: "\<And>h c. ok h \<Longrightarrow> ok (h @ [c])"
    and size: "\<And>h. ok h \<Longrightarrow> SectionHeader_size this h = Inr sz"
    and ent: "\<And>h. ok h \<Longrightarrow> SectionHeader_entsize this h = Inr es"
    and "ok h"
    and "toNumber sz \<le> i + n * toNumber es"
    and "0 < n \<Longrightarrow> i + (n - 1) * toNumber es < toNumber sz"
  shows "getData_loop elfElement this val i result h =
     Some (Inr (result @ map (\<lambda>b. FromBuffer elfElement b (elf this))
                            (fst (copies val i (toNumber es) n h)),
                snd (copies val i (toNumber es) n h)))"
  using assms(4-)
proof (induction n arbitrary: i result h)
  case 0
  then show ?case
    by (subst getData_loop.simps) (simp add: size ent)
next
  case (Suc n)
  let ?h' = "h @ [contents (slice val i (i + toNumber es)) h]"
  have h': "ok ?h'"
    using Suc.prems(1) by (rule ok)
  have "i + n * toNumber es < toNumber sz"
    using Suc.prems(3) by simp
  then have lt: "i < toNumber sz"
    by linarith
  have step: "getData_loop elfElement this val (i + toNumber es)
       (result @ [FromBuffer elfElement (fst (Buffer_from_Buffer (slice val i (i + toNumber es)) h)) (elf this)]) ?h' =
     Some (Inr ((result @ [FromBuffer elfElement (fst (Buffer_from_Buffer (slice val i (i + toNumber es)) h)) (elf this)]) @
             map (\<lambda>b. FromBuffer elfElement b (elf this)) (fst (copies val (i + toNumber es) (toNumber es) n ?h')),
           snd (copies val (i + toNumber es) (toNumber es) n ?h')))"
  proof (rule Suc.IH [OF h'])
    show "toNumber sz \<le> i + toNumber es + n * toNumber es"
      using Suc.prems(2) by simp
    show "i + toNumber es + (n - 1) * toNumber es < toNumber sz" if "0 < n"
      using Suc.prems(3) that by (cases n) simp_all
  qed
  show ?case
    using lt step
    by (subst getData_loop.simps)
      (simp add: size [OF Suc.prems(1)] ent [OF Suc.prems(1)] ent [OF h'])
qed

lemma getData_loop_Some_imp:
  "getData_loop elfElement this val i result h = Some r \<Longrightarrow>
     (\<forall>h c. ok h \<longrightarrow> ok (h @ [c])) \<Longrightarrow>
     (\<forall>h. ok h \<longrightarrow> SectionHeader_size this h = Inr sz) \<Longrightarrow>
     (\<forall>h. ok h \<longrightarrow> SectionHeader_entsize this h = Inr es) \<Longrightarrow>
     toNumber es = 0 \<Longrightarrow> ok h \<Longrightarrow> i < toNumber sz \<Longrightarrow> False"
proof (induction elfElement this val i result h r rule: getData_loop.raw_induct [rotated 1, consumes 1])
  case (1 loop elfElement this val i result h r)
  let ?h' = "h @ [contents (slice val i (i + toNumber es)) h]"
  have ok': "ok ?h'"
    using "1.prems"(1,5) by blast
  have sz: "SectionHeader_size this h = Inr sz"
    and es: "SectionHeader_entsize this h = Inr es"
    and es': "SectionHeader_entsize this ?h' = Inr es"
    using "1.prems"(2,3,5) ok' by blast+
  from "1.hyps" have "loop elfElement this val (i + toNumber es)
       (result @ [FromBuffer elfElement (fst (Buffer_from_Buffer (slice val i (i + toNumber es)) h)) (elf this)])
       ?h' = Some r"
    using "1.prems"(6) by (simp add: sz es es')
  then have "loop elfElement this val i
       (result @ [FromBuffer elfElement (fst (Buffer_from_Buffer (slice val i (i + toNumber es)) h)) (elf this)])
       ?h' = Some r"
    by (simp only: "1.prems"(4) add_0_right)
  then show ?case
    using "1.prems"(1,2,3,4) ok' "1.prems"(6) by (rule "1.IH")
qed

lemma getData_loop_diverges:
  assumes "\<And>h c. ok h \<Longrightarrow> ok (h @ [c])"
    and "\<And>h. ok h \<Longrightarrow> SectionHeader_size this h = Inr sz"
    and "\<And>h. ok h \<Longrightarrow> SectionHeader_entsize this h = Inr es"
    and "toNumber es = 0" "ok h" "i < toNumber sz"
  shows "getData_loop elfElement this val i result h = None"
proof (cases "getData_loop elfElement this val i result h")
  case None
  then show ?thesis .
next
  case (Some r)
  have False
    by (rule getData_loop_Some_imp [where ok = ok, OF Some]) (use assms in auto)
  then show ?thesis ..
qed

section \<open>What the getters depend on\<close>


lemmas SectionHeader_getters =
  SectionHeader_name_def SectionHeader_type_def SectionHeader_flags_def SectionHeader_addr_def
  SectionHeader_offset_def SectionHeader_size_def SectionHeader_link_def SectionHeader_info_def
  SectionHeader_addralign_def SectionHeader_entsize_def

lemma SectionHeader_depends:
  assumes "h' ! view this = h ! view this"
    and "h' ! hview (header (elf this)) = h ! hview (header (elf this))"
  shows "SectionHeader_type this h' = SectionHeader_type this h"
    and "SectionHeader_offset this h' = SectionHeader_offset this h"
    and "SectionHeader_size this h' = SectionHeader_size this h"
    and "SectionHeader_entsize this h' = SectionHeader_entsize this h"
  using assms by (simp_all add: SectionHeader_getters isLE_eq is32bit_eq read_defs)

section \<open>Record extraction and decoding as a whole\<close>

lemma ceiling_div_bounds:
  fixes sz es :: nat
  assumes "0 < es"
  defines "n \<equiv> (sz + es - 1) div es"
  shows "sz \<le> n * es" and "0 < n \<Longrightarrow> (n - 1) * es < sz"
proof -
  have eq: "n * es + (sz + es - 1) mod es = sz + es - 1"
    unfolding n_def by (simp add: div_mult_mod_eq)
  have r: "(sz + es - 1) mod es < es"
    using assms(1) by simp
  show "sz \<le> n * es"
    using eq r by linarith
  show "(n - 1) * es < sz" if "0 < n"
  proof -
    have "(n - 1) * es + es = n * es"
      using that by (cases n) simp_all
    moreover have "0 < sz"
    proof (rule ccontr)
      assume "\<not> 0 < sz"
      then have "n = 0" unfolding n_def using assms(1) by simp
      with that show False by simp
    qed
    ultimately show ?thesis
      using eq by linarith
  qed
qed

lemma getData_result:
  assumes wf: "view this < length h" "hview (header (elf this)) < length h"
    and val: "SectionHeader_value this h = Inr val"
    and ty: "SectionHeader_type this h = Inr t" "toNumber t \<in> set (SH_TYPES elfElement)"
    and sz: "SectionHeader_size this h = Inr sz"
    and es: "SectionHeader_entsize this h = Inr es" "0 < toNumber es"
  shows "getData this elfElement h =
     Some (Inr (map (\<lambda>b. FromBuffer elfElement b (elf this))
                  (fst (copies val 0 (toNumber es) ((toNumber sz + toNumber es - 1) div toNumber es) h)),
                snd (copies val 0 (toNumber es) ((toNumber sz + toNumber es - 1) div toNumber es) h)))"
proof -
  define ok where "ok h' \<longleftrightarrow> h' ! view this = h ! view this \<and>
      h' ! hview (header (elf this)) = h ! hview (header (elf this)) \<and>
      view this < length h' \<and> hview (header (elf this)) < length h'" for h'
  have ok_step: "ok (h' @ [c])" if "ok h'" for h' c
    using that by (simp add: ok_def nth_append)
  have ok_sz: "SectionHeader_size this h' = Inr sz" if "ok h'" for h'
    using that sz SectionHeader_depends(3) [of h' this h] by (simp add: ok_def)
  have ok_es: "SectionHeader_entsize this h' = Inr es" if "ok h'" for h'
    using that es SectionHeader_depends(4) [of h' this h] by (simp add: ok_def)
  have ok: "ok h"
    using wf by (simp add: ok_def)
  have "getData_loop elfElement this val 0 [] h =
     Some (Inr ([] @ map (\<lambda>b. FromBuffer elfElement b (elf this))
                  (fst (copies val 0 (toNumber es) ((toNumber sz + toNumber es - 1) div toNumber es) h)),
                snd (copies val 0 (toNumber es) ((toNumber sz + toNumber es - 1) div toNumber es) h)))"
    using ok_step ok_sz ok_es ok
  proof (rule getData_loop_copies)
    show "toNumber sz \<le> 0 + (toNumber sz + toNumber es - 1) div toNumber es * toNumber es"
      using ceiling_div_bounds(1) [OF es(2)] by simp
    show "0 + ((toNumber sz + toNumber es - 1) div toNumber es - 1) * toNumber es < toNumber sz"
      if "0 < (toNumber sz + toNumber es - 1) div toNumber es"
      using ceiling_div_bounds(2) [OF es(2) that] by simp
  qed
  then show ?thesis
    using val ty by (simp add: getData_def)
qed

lemma getData_diverges:
  assumes wf: "view this < length h" "hview (header (elf this)) < length h"
    and val: "SectionHeader_value this h = Inr val"
    and ty: "SectionHeader_type this h = Inr t" "toNumber t \<in> set (SH_TYPES elfElement)"
    and sz: "SectionHeader_size this h = Inr sz" "0 < toNumber sz"
    and es: "SectionHeader_entsize this h = Inr es" "toNumber es = 0"
  shows "getData this elfElement h = None"
proof -
  define ok where "ok h' \<longleftrightarrow> h' ! view this = h ! view this \<and>
      h' ! hview (header (elf this)) = h ! hview (header (elf this)) \<and>
      view this < length h' \<and> hview (header (elf this)) < length h'" for h'
  have ok_step: "ok (h' @ [c])" if "ok h'" for h' c
    using that by (simp add: ok_def nth_append)
  have ok_sz: "SectionHeader_size this h' = Inr sz" if "ok h'" for h'
    using that sz SectionHeader_depends(3) [of h' this h] by (simp add: ok_def)
  have ok_es: "SectionHeader_entsize this h' = Inr es" if "ok h'" for h'
    using that es SectionHeader_depends(4) [of h' this h] by (simp add: ok_def)
  have ok: "ok h"
    using wf by (simp add: ok_def)
  have "getData_loop elfElement this val 0 [] h = None"
    using ok_step ok_sz ok_es es(2) ok sz(2) by (rule getData_loop_diverges)
  then show ?thesis
    using val ty by (simp add: getData_def)
qed

lemma getData_invalid_type:
  assumes "SectionHeader_value this h = Inr val"
    and "SectionHeader_type this h = Inr t" "toNumber t \<notin> set (SH_TYPES elfElement)"
  shows "getData this elfElement h = Some (Inl InvalidType)"
  using assms by (simp add: getData_def)


section \<open>Decoding the example files\<close>

lemmas example_defs =
  header32_def section32_def segment32_def symbols32_def rela32_def file32_def
  file32_truncated_def file32_zero_entsize_def file32_zero_records_def header64_def
  segment64_def file64_def ident32BE_def dyn32BE_def elf_sh_type_def elfref_def element_def

lemmas Symbol_getters =
  Symbol_name_def Symbol_value_def Symbol_size_def Symbol_info_def Symbol_other_def
  Symbol_shndx_def

lemmas eval_defs =
  ELFHeader_getters SectionHeader_getters ProgramHeader_getters Symbol_getters
  SectionHeader_value_def
  ELFHeader_ident_def ELFHeader_isLE_def ELFHeader_is32bit_def ELF_isLE_def ELF_is32bit_def
  isLE_def is32bit_def hview_def view_def read_defs decode_def
  Buffer_from_ArrayBuffer_def ELFHeader_FromBuffer_def SectionHeader_FromBuffer_def
  ProgramHeader_FromBuffer_def Symbol_FromBuffer_def Rel_FromBuffer_def Dyn_FromBuffer_def
  Note_FromBuffer_def Symbol_class_def Rel_class_def Dyn_class_def Note_class_def
  slice_def contents_def Let_def

lemma file32_decoded:
  "ELF_FromBuffer 0 [file32] =
     Some (Inr (\<lparr>ebuffer = ebuffer (elfref 0 208), header = header (elfref 0 208),
                 sectionHeaders = [element 1 40 (elfref 0 208), element 2 40 (elfref 0 208)],
                 programHeaders = [element 3 32 (elfref 0 208)]\<rparr>,
                [file32, section32 2 0xa4 0x20 0x10, section32 4 0xc4 0x0c 0x0c, segment32]))"
  by (simp add: ELF_FromBuffer_def table_loop.simps example_defs eval_defs)

lemma file32_truncated_decoded:
  "ELF_FromBuffer 0 [file32_truncated] =
     Some (Inr (\<lparr>ebuffer = ebuffer (elfref 0 64), header = header (elfref 0 64),
                 sectionHeaders = [element 1 12 (elfref 0 64)], programHeaders = []\<rparr>,
                [file32_truncated, [0, 0, 0, 0, 0, 0, 0, 0, 0, 0, 0, 0]]))"
  by (simp add: ELF_FromBuffer_def table_loop.simps example_defs eval_defs)


lemma file32_zero_records_decoded:
  "ELF_FromBuffer 0 [file32_zero_records] =
     Some (Inr (\<lparr>ebuffer = ebuffer (elfref 0 132), header = header (elfref 0 132),
                 sectionHeaders = [element 1 40 (elfref 0 132), element 2 40 (elfref 0 132)],
                 programHeaders = []\<rparr>,
                [file32_zero_records, section32 1 0 4 0, section32 2 0 4 0]))"
  by (simp add: ELF_FromBuffer_def table_loop.simps example_defs eval_defs)


section \<open>Record kinds and section types\<close>

text \<open>
  Claim C7, amended. For every record kind, extracting records from a section whose
  offset and size fields can be read fails with the invalid type error, and returns no
  element, whenever the section's type tag is not among the kind's section types:
  SYMTAB and DYNSYM for Symbol, REL and RELA for Rel, DYNAMIC for Dyn, NOTE for Note.
\<close>

theorem getData_rejects_other_types:
  "(SectionHeader_value this h = Inr val \<and> SectionHeader_type this h = Inr t \<and>
      toNumber t \<notin> set (SH_TYPES elfElement)
      \<longrightarrow> getData this elfElement h = Some (Inl InvalidType)) \<and>
   SH_TYPES (Symbol_class c) = [SYMTAB c, DYNSYM c] \<and>
   SH_TYPES (Rel_class c) = [REL c, RELA c] \<and>
   SH_TYPES (Dyn_class c) = [DYNAMIC c] \<and>
   SH_TYPES (Note_class c) = [NOTE c]"
proof (intro conjI impI)
  assume "SectionHeader_value this h = Inr val \<and> SectionHeader_type this h = Inr t \<and>
      toNumber t \<notin> set (SH_TYPES elfElement)"
  then show "getData this elfElement h = Some (Inl InvalidType)"
    by (elim conjE) (rule getData_invalid_type)
qed (simp_all add: Symbol_class_def Rel_class_def Dyn_class_def Note_class_def)

theorem getData_rejects_other_types_witness:
  "SectionHeader_value (element 1 40 (elfref 0 208))
       [file32, section32 2 0xa4 0x20 0x10, section32 4 0xc4 0x0c 0x0c, segment32] =
     Inr \<lparr>arrayBuffer = 0, byteOffset = 0xa4, byteLength = 0x20\<rparr> \<and>
   SectionHeader_type (element 1 40 (elfref 0 208))
       [file32, section32 2 0xa4 0x20 0x10, section32 4 0xc4 0x0c 0x0c, segment32] =
     Inr (Number 2) \<and>
   toNumber (Number 2) \<notin> set (SH_TYPES (Rel_class elf_sh_type)) \<and>
   getData (element 1 40 (elfref 0 208)) (Rel_class elf_sh_type)
       [file32, section32 2 0xa4 0x20 0x10, section32 4 0xc4 0x0c 0x0c, segment32] =
     Some (Inl InvalidType)"
  using getData_rejects_other_types
    [of "element 1 40 (elfref 0 208)"
        "[file32, section32 2 0xa4 0x20 0x10, section32 4 0xc4 0x0c 0x0c, segment32]"
        "\<lparr>arrayBuffer = 0, byteOffset = 0xa4, byteLength = 0x20\<rparr>" "Number 2"
        "Rel_class elf_sh_type"]
  by (simp add: example_defs eval_defs)

text \<open>
  The claim as stated fails on a section header cut short by the end of the file:
  \<^verbatim>\<open>getData\<close> reads \<^verbatim>\<open>this.value\<close> before it checks the type, so the extraction
  fails with a RangeError although the type tag can be read and is not allowed.
\<close>

theorem getData_truncated_header_counterexample:
  "ELF_FromBuffer 0 [file32_truncated] =
     Some (Inr (\<lparr>ebuffer = ebuffer (elfref 0 64), header = header (elfref 0 64),
                 sectionHeaders = [element 1 12 (elfref 0 64)], programHeaders = []\<rparr>,
                [file32_truncated, [0, 0, 0, 0, 0, 0, 0, 0, 0, 0, 0, 0]])) \<and>
   SectionHeader_type (element 1 12 (elfref 0 64))
       [file32_truncated, [0, 0, 0, 0, 0, 0, 0, 0, 0, 0, 0, 0]] = Inr (Number 0) \<and>
   0 \<notin> set (SH_TYPES (Symbol_class elf_sh_type)) \<and>
   getData (element 1 12 (elfref 0 64)) (Symbol_class elf_sh_type)
       [file32_truncated, [0, 0, 0, 0, 0, 0, 0, 0, 0, 0, 0, 0]] = Some (Inl RangeError)"
  using file32_truncated_decoded
  by (simp add: getData_def example_defs eval_defs)

text \<open>The program header of the 32-bit example has its flags at 0x18, that of the
  64-bit example at 4.\<close>

theorem ProgramHeader_layout_witness:
  "9 \<le> length ([file32, section32 2 0xa4 0x20 0x10, section32 4 0xc4 0x0c 0x0c, segment32] !
          hview (header (elf (element 3 32 (elfref 0 208))))) \<and>
   ProgramHeader_get p_flags (element 3 32 (elfref 0 208))
       [file32, section32 2 0xa4 0x20 0x10, section32 4 0xc4 0x0c 0x0c, segment32] =
     codec_read segment32 0x18 u32 \<lparr>wordWidth = W32, endianness = LE\<rparr> \<and>
   codec_read segment32 0x18 u32 \<lparr>wordWidth = W32, endianness = LE\<rparr> = Inr (Number 5) \<and>
   9 \<le> length ([file64, segment64] ! hview (header (elf (element 1 56 (elfref 0 120))))) \<and>
   ProgramHeader_get p_flags (element 1 56 (elfref 0 120)) [file64, segment64] =
     codec_read segment64 4 u32 \<lparr>wordWidth = W64, endianness = LE\<rparr> \<and>
   codec_read segment64 4 u32 \<lparr>wordWidth = W64, endianness = LE\<rparr> = Inr (Number 5)"
  using
    ProgramHeader_layout_as_specified
      [of "[file32, section32 2 0xa4 0x20 0x10, section32 4 0xc4 0x0c 0x0c, segment32]"
          "element 3 32 (elfref 0 208)" p_flags]
    ProgramHeader_layout_as_specified
      [of "[file64, segment64]" "element 1 56 (elfref 0 120)" p_flags]
  by (simp add: example_defs hview_def view_def codec_defs decode_def)

section \<open>Termination of record extraction\<close>

lemma getData_empty:
  assumes "SectionHeader_value this h = Inr val"
    and "SectionHeader_type this h = Inr t" "toNumber t \<in> set (SH_TYPES elfElement)"
    and "SectionHeader_size this h = Inr sz" "toNumber sz = 0"
  shows "getData this elfElement h = Some (Inr ([], h))"
  using assms by (simp add: getData_def getData_loop.simps)

text \<open>
  Claim C10, amended. For a section whose fields can be read and whose type tag is
  among the kind's section types: with a size above zero and an entry size of zero the
  extraction never returns; with a size of zero it returns no record; with an entry
  size above zero (and sizes in the range where number arithmetic is exact) it returns,
  with the ceiling of size / entsize records.
\<close>

theorem getData_termination:
  assumes wf: "view this < length h" "hview (header (elf this)) < length h"
    and val: "SectionHeader_value this h = Inr val"
    and ty: "SectionHeader_type this h = Inr t" "toNumber t \<in> set (SH_TYPES elfElement)"
    and sz: "SectionHeader_size this h = Inr sz"
    and es: "SectionHeader_entsize this h = Inr es"
  shows "(0 < toNumber sz \<and> toNumber es = 0 \<longrightarrow> getData this elfElement h = None) \<and>
    (toNumber sz = 0 \<longrightarrow> getData this elfElement h = Some (Inr ([], h))) \<and>
    (0 < toNumber es \<and> toNumber sz + toNumber es \<le> 2 ^ 53 \<longrightarrow>
       (\<exists>recs h'. getData this elfElement h = Some (Inr (recs, h')) \<and>
          length recs = (toNumber sz + toNumber es - 1) div toNumber es))"
proof (intro conjI impI)
  assume "0 < toNumber sz \<and> toNumber es = 0"
  then have pos: "0 < toNumber sz" and zero: "toNumber es = 0"
    by blast+
  show "getData this elfElement h = None"
    using wf val ty sz pos es zero by (rule getData_diverges)
next
  assume "toNumber sz = 0"
  with val ty sz show "getData this elfElement h = Some (Inr ([], h))"
    by (rule getData_empty)
next
  assume "0 < toNumber es \<and> toNumber sz + toNumber es \<le> 2 ^ 53"
  then have pos: "0 < toNumber es" ..
  let ?n = "(toNumber sz + toNumber es - 1) div toNumber es"
  have "getData this elfElement h =
     Some (Inr (map (\<lambda>b. FromBuffer elfElement b (elf this)) (fst (copies val 0 (toNumber es) ?n h)),
                snd (copies val 0 (toNumber es) ?n h)))"
    using wf val ty sz es pos by (rule getData_result)
  moreover have "length (map (\<lambda>b. FromBuffer elfElement b (elf this))
      (fst (copies val 0 (toNumber es) ?n h))) = ?n"
    by simp
  ultimately show "\<exists>recs h'. getData this elfElement h = Some (Inr (recs, h')) \<and> length recs = ?n"
    by blast
qed

theorem getData_termination_witness:
  "getData (element 2 40 (elfref 0 132)) (Symbol_class elf_sh_type)
       [file32_zero_records, section32 1 0 4 0, section32 2 0 4 0] = None \<and>
   (\<exists>recs h'. getData (element 1 40 (elfref 0 208)) (Symbol_class elf_sh_type)
       [file32, section32 2 0xa4 0x20 0x10, section32 4 0xc4 0x0c 0x0c, segment32] =
         Some (Inr (recs, h')) \<and> length recs = 2)"
  using
    getData_termination
      [of "element 2 40 (elfref 0 132)"
          "[file32_zero_records, section32 1 0 4 0, section32 2 0 4 0]"
          "\<lparr>arrayBuffer = 0, byteOffset = 0, byteLength = 4\<rparr>" "Number 2"
          "Symbol_class elf_sh_type" "Number 4" "Number 0"]
    getData_termination
      [of "element 1 40 (elfref 0 208)"
          "[file32, section32 2 0xa4 0x20 0x10, section32 4 0xc4 0x0c 0x0c, segment32]"
          "\<lparr>arrayBuffer = 0, byteOffset = 0xa4, byteLength = 0x20\<rparr>" "Number 2"
          "Symbol_class elf_sh_type" "Number 0x20" "Number 0x10"]
  by (simp add: example_defs eval_defs)

text \<open>
  The claim as stated fails on a section whose type tag is not among the kind's
  section types: the type check comes before the loop, so the extraction returns (with
  the invalid type error) although the size is above zero and the entry size is zero.
\<close>

theorem getData_terminates_on_other_type_counterexample:
  "ELF_FromBuffer 0 [file32_zero_records] =
     Some (Inr (\<lparr>ebuffer = ebuffer (elfref 0 132), header = header (elfref 0 132),
                 sectionHeaders = [element 1 40 (elfref 0 132), element 2 40 (elfref 0 132)],
                 programHeaders = []\<rparr>,
                [file32_zero_records, section32 1 0 4 0, section32 2 0 4 0])) \<and>
   SectionHeader_size (element 1 40 (elfref 0 132))
       [file32_zero_records, section32 1 0 4 0, section32 2 0 4 0] = Inr (Number 4) \<and>
   SectionHeader_entsize (element 1 40 (elfref 0 132))
       [file32_zero_records, section32 1 0 4 0, section32 2 0 4 0] = Inr (Number 0) \<and>
   getData (element 1 40 (elfref 0 132)) (Symbol_class elf_sh_type)
       [file32_zero_records, section32 1 0 4 0, section32 2 0 4 0] = Some (Inl InvalidType)"
  using file32_zero_records_decoded
  by (simp add: getData_def example_defs eval_defs)

section \<open>The addend of a relocation\<close>

lemmas Rel_accessors =
  Rel_offset_def Rel_info_def Rel_added_def Rel_set_offset_def Rel_set_info_def Rel_set_added_def

text \<open>
  Claim C3 says that a record extracted from a RELA section has an addend, read as a
  native word at offset 8 or 16. \<^verbatim>\<open>getData\<close> calls \<^verbatim>\<open>FromBuffer\<close> with two arguments,
  so \<^verbatim>\<open>needsAddend\<close> of every record it makes is undefined whatever the section's
  type: on the RELA section of the example file (type tag 4, one record of 12 bytes
  whose addend is 4) the record's \<^verbatim>\<open>added\<close> is undefined, where the same record built
  with \<^verbatim>\<open>needsAddend\<close> true reads 4 at offset 8.
\<close>

theorem getData_Rel_has_no_addend:
  "SectionHeader_type (element 2 40 (elfref 0 208))
       [file32, section32 2 0xa4 0x20 0x10, section32 4 0xc4 0x0c 0x0c, segment32] =
     Inr (Number (RELA elf_sh_type)) \<and>
   getData (element 2 40 (elfref 0 208)) (Rel_class elf_sh_type)
       [file32, section32 2 0xa4 0x20 0x10, section32 4 0xc4 0x0c 0x0c, segment32] =
     Some (Inr ([Rel_FromBuffer \<lparr>arrayBuffer = 4, byteOffset = 0, byteLength = 12\<rparr> (elfref 0 208) None],
                [file32, section32 2 0xa4 0x20 0x10, section32 4 0xc4 0x0c 0x0c, segment32, rela32])) \<and>
   Rel_added (Rel_FromBuffer \<lparr>arrayBuffer = 4, byteOffset = 0, byteLength = 12\<rparr> (elfref 0 208) None)
       [file32, section32 2 0xa4 0x20 0x10, section32 4 0xc4 0x0c 0x0c, segment32, rela32] =
     Inr Undefined \<and>
   Rel_added (Rel_FromBuffer \<lparr>arrayBuffer = 4, byteOffset = 0, byteLength = 12\<rparr> (elfref 0 208) (Some True))
       [file32, section32 2 0xa4 0x20 0x10, section32 4 0xc4 0x0c 0x0c, segment32, rela32] =
     Inr (Numeric (Number 4))"
  by (simp add: getData_def getData_loop.simps Rel_accessors example_defs eval_defs)

section \<open>One variant for a decoded file\<close>

lemma table_loop_all:
  "table_loop off num entsize mk buf hdr e i acc h = Some r \<Longrightarrow>
     (\<forall>x\<in>set acc. P x) \<Longrightarrow> (\<forall>b. P (mk b e)) \<Longrightarrow>
     (case r of Inl err \<Rightarrow> True | Inr (res, h') \<Rightarrow> \<forall>x\<in>set res. P x)"
proof (induction off num entsize mk buf hdr e i acc h r
    rule: table_loop.raw_induct [rotated 1, consumes 1])
  case (1 loop off num entsize mk buf hdr e i acc h r)
  show ?case
    using "1.hyps" "1.prems"
    apply (auto simp: andThen_def split: sum.splits if_splits)
    apply (drule "1.IH")
      apply auto
    done
qed

lemma getData_loop_all:
  "getData_loop elfElement this val i acc h = Some r \<Longrightarrow>
     (\<forall>x\<in>set acc. P x) \<Longrightarrow> (\<forall>b. P (FromBuffer elfElement b (elf this))) \<Longrightarrow>
     (case r of Inl err \<Rightarrow> True | Inr (res, h') \<Rightarrow> \<forall>x\<in>set res. P x)"
proof (induction elfElement this val i acc h r
    rule: getData_loop.raw_induct [rotated 1, consumes 1])
  case (1 loop elfElement this val i acc h r)
  show ?case
    using "1.hyps" "1.prems"
    apply (auto split: sum.splits if_splits)
    apply (drule "1.IH")
      apply auto
    done
qed

lemma getData_all:
  assumes "getData this elfElement h = Some (Inr (recs, h'))"
    and "\<And>b. P (FromBuffer elfElement b (elf this))"
  shows "\<forall>x\<in>set recs. P x"
proof -
  from assms(1) obtain val where "getData_loop elfElement this val 0 [] h = Some (Inr (recs, h'))"
    by (auto simp: getData_def split: sum.splits if_splits)
  from getData_loop_all [OF this, of P] assms(2) show ?thesis
    by simp
qed

lemma ELF_FromBuffer_elements:
  assumes "ELF_FromBuffer a h = Some (Inr (decoded, h1))"
    and "\<And>b. P (SectionHeader_FromBuffer b
            \<lparr>ebuffer = Buffer_from_ArrayBuffer a h,
             header = ELFHeader_FromBuffer (Buffer_from_ArrayBuffer a h)\<rparr>)"
    and "\<And>b. P (ProgramHeader_FromBuffer b
            \<lparr>ebuffer = Buffer_from_ArrayBuffer a h,
             header = ELFHeader_FromBuffer (Buffer_from_ArrayBuffer a h)\<rparr>)"
  shows "ebuffer decoded = Buffer_from_ArrayBuffer a h"
    and "header decoded = ELFHeader_FromBuffer (Buffer_from_ArrayBuffer a h)"
    and "\<forall>x\<in>set (sectionHeaders decoded) \<union> set (programHeaders decoded). P x"
proof -
  let ?buf = "Buffer_from_ArrayBuffer a h"
  let ?hdr = "ELFHeader_FromBuffer ?buf"
  let ?e = "\<lparr>ebuffer = ?buf, header = ?hdr\<rparr>"
  from assms(1) obtain shoff shs h0 phoff phs where
    l1: "table_loop ELFHeader_shoff ELFHeader_shnum ELFHeader_shentsize SectionHeader_FromBuffer
           ?buf ?hdr ?e (toNumber shoff) [] h = Some (Inr (shs, h0))"
    and l2: "table_loop ELFHeader_phoff ELFHeader_phnum ELFHeader_phentsize ProgramHeader_FromBuffer
           ?buf ?hdr ?e (toNumber phoff) [] h0 = Some (Inr (phs, h1))"
    and d: "decoded = \<lparr>ebuffer = ?buf, header = ?hdr, sectionHeaders = shs, programHeaders = phs\<rparr>"
    by (auto simp: ELF_FromBuffer_def Let_def split: sum.splits option.splits prod.splits)
  show "ebuffer decoded = ?buf" "header decoded = ?hdr"
    by (simp_all add: d)
  have "\<forall>x\<in>set shs. P x"
    using table_loop_all [OF l1, of P] assms(2) by simp
  moreover have "\<forall>x\<in>set phs. P x"
    using table_loop_all [OF l2, of P] assms(3) by simp
  ultimately show "\<forall>x\<in>set (sectionHeaders decoded) \<union> set (programHeaders decoded). P x"
    by (auto simp: d)
qed

lemma reports_header:
  assumes "9 \<le> length (hx ! hview hdr)"
  shows "reports (ELFHeader_is32bit hdr hx) (ELFHeader_isLE hdr hx) (resolveVariant (hx ! hview hdr))"
  using assms by (simp add: reports_def ELFHeader_is32bit_eq ELFHeader_isLE_eq resolveVariant_def)

lemma reports_element:
  assumes "9 \<le> length (hx ! hview (header (elf x)))"
  shows "reports (is32bit x hx) (isLE x hx) (resolveVariant (hx ! hview (header (elf x))))"
  using reports_header [OF assms] by (simp add: is32bit_def isLE_def ELF_is32bit_def ELF_isLE_def)

lemma reports_of_elf:
  assumes "hview (header (elf x)) = a" "9 \<le> length (hx ! a)"
  shows "reports (is32bit x hx) (isLE x hx) (resolveVariant (hx ! a))"
  using reports_element [of hx x] assms by simp

lemma getData_reports:
  assumes g: "getData sh k hy = Some (Inr (recs, hz))"
    and k: "\<And>b. elf (FromBuffer k b (elf sh)) = elf sh"
    and a: "hview (header (elf sh)) = a" "9 \<le> length (hx ! a)"
  shows "\<forall>r\<in>set recs. reports (is32bit r hx) (isLE r hx) (resolveVariant (hx ! a))"
proof -
  have "\<forall>r\<in>set recs. elf r = elf sh"
    using getData_all [OF g, of "\<lambda>r. elf r = elf sh"] k by simp
  then show ?thesis
    using a by (auto intro!: reports_of_elf)
qed

lemma record_elf [simp]:
  "elf (FromBuffer (Symbol_class c) b e) = e"
  "elf (FromBuffer (Rel_class c) b e) = e"
  "elf (FromBuffer (Dyn_class c) b e) = e"
  "elf (FromBuffer (Note_class c) b e) = e"
  by (simp_all add: Symbol_class_def Rel_class_def Dyn_class_def Note_class_def
      Symbol_FromBuffer_def Rel_FromBuffer_def Dyn_FromBuffer_def Note_FromBuffer_def)

text \<open>
  Claim C9. For a decoded file, the file header, the file object, every section header,
  every program header and every record extracted from one of its sections report the
  same variant, the one that the identification bytes of the file's buffer give: byte 4
  equal to 1 means 32-bit and byte 5 equal to 1 means little-endian. The variant is
  read from the buffer, here in any state \<open>hx\<close> of the heap in which the identification
  bytes can be read.
\<close>

theorem one_variant_per_file:
  assumes dec: "ELF_FromBuffer a h = Some (Inr (decoded, h1))"
    and len: "9 \<le> length (hx ! a)"
  shows "reports (ELFHeader_is32bit (header decoded) hx) (ELFHeader_isLE (header decoded) hx)
           (resolveVariant (hx ! a)) \<and>
    reports (ELF_is32bit decoded hx) (ELF_isLE decoded hx) (resolveVariant (hx ! a)) \<and>
    (\<forall>x\<in>set (sectionHeaders decoded) \<union> set (programHeaders decoded).
        reports (is32bit x hx) (isLE x hx) (resolveVariant (hx ! a))) \<and>
    (\<forall>sh\<in>set (sectionHeaders decoded). \<forall>c hy recs hz.
        (getData sh (Symbol_class c) hy = Some (Inr (recs, hz)) \<longrightarrow>
           (\<forall>r\<in>set recs. reports (is32bit r hx) (isLE r hx) (resolveVariant (hx ! a)))) \<and>
        (getData sh (Dyn_class c) hy = Some (Inr (recs, hz)) \<longrightarrow>
           (\<forall>r\<in>set recs. reports (is32bit r hx) (isLE r hx) (resolveVariant (hx ! a)))) \<and>
        (getData sh (Note_class c) hy = Some (Inr (recs, hz)) \<longrightarrow>
           (\<forall>r\<in>set recs. reports (is32bit r hx) (isLE r hx) (resolveVariant (hx ! a))))) \<and>
    (\<forall>sh\<in>set (sectionHeaders decoded). \<forall>c hy recs hz.
        getData sh (Rel_class c) hy = Some (Inr (recs, hz)) \<longrightarrow>
           (\<forall>r\<in>set recs. reports (is32bit r hx) (isLE r hx) (resolveVariant (hx ! a))))"
proof -
  let ?buf = "Buffer_from_ArrayBuffer a h"
  let ?e = "\<lparr>ebuffer = ?buf, header = ELFHeader_FromBuffer ?buf\<rparr>"
  have hv: "hview (header ?e) = a"
    by (simp add: hview_def ELFHeader_FromBuffer_def Buffer_from_ArrayBuffer_def)
  have hdr: "header decoded = ELFHeader_FromBuffer ?buf"
    and elems: "\<forall>x\<in>set (sectionHeaders decoded) \<union> set (programHeaders decoded). elf x = ?e"
    using ELF_FromBuffer_elements [OF dec, of "\<lambda>x. elf x = ?e"]
    by (simp_all add: SectionHeader_FromBuffer_def ProgramHeader_FromBuffer_def)
  have c1: "reports (ELFHeader_is32bit (header decoded) hx) (ELFHeader_isLE (header decoded) hx)
           (resolveVariant (hx ! a))"
    using reports_header [of hx "header decoded"] len hv by (simp add: hdr)
  then have c2: "reports (ELF_is32bit decoded hx) (ELF_isLE decoded hx) (resolveVariant (hx ! a))"
    by (simp add: ELF_is32bit_def ELF_isLE_def)
  have c3: "\<forall>x\<in>set (sectionHeaders decoded) \<union> set (programHeaders decoded).
        reports (is32bit x hx) (isLE x hx) (resolveVariant (hx ! a))"
    using elems hv len by (auto intro!: reports_of_elf)
  have sha: "hview (header (elf sh)) = a" if "sh \<in> set (sectionHeaders decoded)" for sh
    using elems that hv by simp
  have of_sym: "\<forall>r\<in>set recs. reports (is32bit r hx) (isLE r hx) (resolveVariant (hx ! a))"
    if "sh \<in> set (sectionHeaders decoded)" "getData sh (Symbol_class c) hy = Some (Inr (recs, hz))"
    for sh c hy recs hz
    using getData_reports [OF that(2) _ sha [OF that(1)] len] by simp
  have of_dyn: "\<forall>r\<in>set recs. reports (is32bit r hx) (isLE r hx) (resolveVariant (hx ! a))"
    if "sh \<in> set (sectionHeaders decoded)" "getData sh (Dyn_class c) hy = Some (Inr (recs, hz))"
    for sh c hy recs hz
    using getData_reports [OF that(2) _ sha [OF that(1)] len] by simp
  have of_note: "\<forall>r\<in>set recs. reports (is32bit r hx) (isLE r hx) (resolveVariant (hx ! a))"
    if "sh \<in> set (sectionHeaders decoded)" "getData sh (Note_class c) hy = Some (Inr (recs, hz))"
    for sh c hy recs hz
    using getData_reports [OF that(2) _ sha [OF that(1)] len] by simp
  have of_rel: "\<forall>r\<in>set recs. reports (is32bit r hx) (isLE r hx) (resolveVariant (hx ! a))"
    if "sh \<in> set (sectionHeaders decoded)" "getData sh (Rel_class c) hy = Some (Inr (recs, hz))"
    for sh c hy recs hz
    using getData_reports [OF that(2) _ sha [OF that(1)] len] by simp
  have c4: "\<forall>sh\<in>set (sectionHeaders decoded). \<forall>c hy recs hz.
        (getData sh (Symbol_class c) hy = Some (Inr (recs, hz)) \<longrightarrow>
           (\<forall>r\<in>set recs. reports (is32bit r hx) (isLE r hx) (resolveVariant (hx ! a)))) \<and>
        (getData sh (Dyn_class c) hy = Some (Inr (recs, hz)) \<longrightarrow>
           (\<forall>r\<in>set recs. reports (is32bit r hx) (isLE r hx) (resolveVariant (hx ! a)))) \<and>
        (getData sh (Note_class c) hy = Some (Inr (recs, hz)) \<longrightarrow>
           (\<forall>r\<in>set recs. reports (is32bit r hx) (isLE r hx) (resolveVariant (hx ! a))))"
    using of_sym of_dyn of_note by blast
  have c5: "\<forall>sh\<in>set (sectionHeaders decoded). \<forall>c hy recs hz.
        getData sh (Rel_class c) hy = Some (Inr (recs, hz)) \<longrightarrow>
           (\<forall>r\<in>set recs. reports (is32bit r hx) (isLE r hx) (resolveVariant (hx ! a)))"
    using of_rel by blast
  from c1 c2 c3 c4 c5 show ?thesis
    by (intro conjI)
qed

theorem one_variant_per_file_witness:
  "ELF_FromBuffer 0 [file32] =
     Some (Inr (\<lparr>ebuffer = ebuffer (elfref 0 208), header = header (elfref 0 208),
                 sectionHeaders = [element 1 40 (elfref 0 208), element 2 40 (elfref 0 208)],
                 programHeaders = [element 3 32 (elfref 0 208)]\<rparr>,
                [file32, section32 2 0xa4 0x20 0x10, section32 4 0xc4 0x0c 0x0c, segment32])) \<and>
   9 \<le> length ([file32, section32 2 0xa4 0x20 0x10, section32 4 0xc4 0x0c 0x0c, segment32] ! 0) \<and>
   resolveVariant file32 = \<lparr>wordWidth = W32, endianness = LE\<rparr> \<and>
   reports
     (is32bit (element 1 40 (elfref 0 208))
        [file32, section32 2 0xa4 0x20 0x10, section32 4 0xc4 0x0c 0x0c, segment32])
     (isLE (element 1 40 (elfref 0 208))
        [file32, section32 2 0xa4 0x20 0x10, section32 4 0xc4 0x0c 0x0c, segment32])
     (resolveVariant file32) \<and>
   reports
     (is32bit (element 3 32 (elfref 0 208))
        [file32, section32 2 0xa4 0x20 0x10, section32 4 0xc4 0x0c 0x0c, segment32])
     (isLE (element 3 32 (elfref 0 208))
        [file32, section32 2 0xa4 0x20 0x10, section32 4 0xc4 0x0c 0x0c, segment32])
     (resolveVariant file32)"
  using one_variant_per_file
    [OF file32_decoded,
      of "[file32, section32 2 0xa4 0x20 0x10, section32 4 0xc4 0x0c 0x0c, segment32]"]
    file32_decoded
  by (simp add: resolveVariant_def example_defs)

section \<open>Writing and reading back\<close>

lemmas ELFHeader_setters =
  ELFHeader_set_type_def ELFHeader_set_machine_def ELFHeader_set_version_def
  ELFHeader_set_entry_def ELFHeader_set_phoff_def ELFHeader_set_shoff_def
  ELFHeader_set_flags_def ELFHeader_set_ehsize_def ELFHeader_set_phentsize_def
  ELFHeader_set_phnum_def ELFHeader_set_shentsize_def ELFHeader_set_shnum_def
  ELFHeader_set_shstrndx_def

lemmas Symbol_setters =
  Symbol_set_name_def Symbol_set_value_def Symbol_set_size_def Symbol_set_info_def
  Symbol_set_other_def Symbol_set_shndx_def

lemmas Dyn_accessors =
  Dyn_tag_def Dyn_val_def Dyn_ptr_def Dyn_set_tag_def Dyn_set_val_def Dyn_set_ptr_def

lemmas Note_accessors =
  Note_namesz_def Note_descsz_def Note_type_def Note_set_namesz_def Note_set_descsz_def
  Note_set_type_def

lemma header_variant_cases:
  obtains (short) "ELFHeader_isLE this h = Inl RangeError" "ELFHeader_is32bit this h = Inl RangeError"
  | (long) w le where "ELFHeader_isLE this h = Inr le" "ELFHeader_is32bit this h = Inr w"
  by (cases "9 \<le> length (h ! hview this)") (auto simp: ELFHeader_isLE_eq ELFHeader_is32bit_eq)

lemma ELFHeader_set_only_changes:
  assumes "ELFHeader_set f this v h = Inr h'"
  shows "only_changes (hview this) 16 h h'"
proof (cases this h rule: header_variant_cases)
  case short
  with assms show ?thesis
    by (cases f) (simp_all add: ELFHeader_setters split: if_splits)
next
  case (long w le)
  with assms show ?thesis
    by (cases f) (auto simp: ELFHeader_setters split: if_splits intro: write_only_changes)
qed

lemma header_variant_frame:
  assumes "only_changes (hview this) 16 h h'"
  shows "ELFHeader_isLE this h' = ELFHeader_isLE this h"
    and "ELFHeader_is32bit this h' = ELFHeader_is32bit this h"
proof -
  from assms have len: "length (h' ! hview this) = length (h ! hview this)"
    and tk: "take 16 (h' ! hview this) = take 16 (h ! hview this)"
    by (simp_all add: only_changes_def)
  have "h' ! hview this ! i = h ! hview this ! i" if "i < 16" for i
    using nth_take [OF that, of "h' ! hview this"] nth_take [OF that, of "h ! hview this"] tk
    by simp
  then show "ELFHeader_isLE this h' = ELFHeader_isLE this h"
    and "ELFHeader_is32bit this h' = ELFHeader_is32bit this h"
    by (simp_all add: ELFHeader_isLE_eq ELFHeader_is32bit_eq len)
qed

lemma ELFHeader_roundtrip:
  assumes set: "ELFHeader_set f this v h = Inr h'"
    and w: "ELFHeader_is32bit this h = Inr w"
    and fits: "fits (if w then W32 else W64) (snd (snd (FileHeader_layout f))) v"
    and a: "hview this < length h"
  shows "ELFHeader_get f this h' = Inr v"
proof -
  from w obtain le where le: "ELFHeader_isLE this h = Inr le"
    by (cases this h rule: header_variant_cases) auto
  have oc: "only_changes (hview this) 16 h h'"
    using set by (rule ELFHeader_set_only_changes)
  have le': "ELFHeader_isLE this h' = Inr le" and w': "ELFHeader_is32bit this h' = Inr w"
    using header_variant_frame [OF oc] le w by simp_all
  show ?thesis
    using set fits a
    by (cases f; cases v; cases w)
      (auto simp: ELFHeader_setters ELFHeader_getters le w le' w'
        intro: read_write_16 [where w = W32] read_write_32 [where w = W32]
          read_write_64 [where w = W64])
qed

lemma Symbol_set_only_changes:
  assumes "Symbol_set f this v h = Inr h'"
  shows "only_changes (view this) 0 h h'"
proof (cases this h rule: variant_cases)
  case short
  with assms show ?thesis
    by (cases f) (simp_all add: Symbol_setters split: if_splits)
next
  case (long w le)
  with assms show ?thesis
    by (cases f) (auto simp: Symbol_setters split: if_splits intro: write_only_changes)
qed

lemma Symbol_roundtrip:
  assumes set: "Symbol_set f this v h = Inr h'"
    and w: "is32bit this h = Inr w"
    and fits: "fits (if w then W32 else W64) (snd (snd (Symbol_layout f))) v"
    and own: "view this \<noteq> hview (header (elf this))"
    and a: "view this < length h"
  shows "Symbol_get f this h' = Inr v"
proof -
  from w obtain le where le: "isLE this h = Inr le"
    by (cases this h rule: variant_cases) auto
  have oc: "only_changes (view this) 0 h h'"
    using set by (rule Symbol_set_only_changes)
  have le': "isLE this h' = Inr le" and w': "is32bit this h' = Inr w"
    using variant_frame [OF oc own] le w by simp_all
  show ?thesis
    using set fits a
    by (cases f; cases v; cases w)
      (auto simp: Symbol_setters Symbol_getters le w le' w'
        intro: read_write_8 [where w = W32] read_write_16 [where w = W32]
          read_write_32 [where w = W32] read_write_64 [where w = W64])
qed

lemma Dyn_set_only_changes:
  assumes "Dyn_set f this v h = Inr h'"
  shows "only_changes (view this) 0 h h'"
proof (cases this h rule: variant_cases)
  case short
  with assms show ?thesis
    by (cases f) (simp_all add: Dyn_accessors split: if_splits)
next
  case (long w le)
  with assms show ?thesis
    by (cases f) (auto simp: Dyn_accessors split: if_splits intro: write_only_changes)
qed

lemma Dyn_roundtrip:
  assumes set: "Dyn_set f this v h = Inr h'"
    and w: "is32bit this h = Inr w"
    and fits: "fits (if w then W32 else W64) (snd (snd (DynamicEntry_layout f))) v"
    and own: "view this \<noteq> hview (header (elf this))"
    and a: "view this < length h"
  shows "Dyn_get f this h' = Inr v"
proof -
  from w obtain le where le: "isLE this h = Inr le"
    by (cases this h rule: variant_cases) auto
  have oc: "only_changes (view this) 0 h h'"
    using set by (rule Dyn_set_only_changes)
  have le': "isLE this h' = Inr le" and w': "is32bit this h' = Inr w"
    using variant_frame [OF oc own] le w by simp_all
  show ?thesis
    using set fits a
    by (cases f; cases v; cases w)
      (auto simp: Dyn_accessors Dyn_accessors le w le' w'
        intro: read_write_8 [where w = W32] read_write_16 [where w = W32]
          read_write_32 [where w = W32] read_write_64 [where w = W64])
qed

lemma Note_set_only_changes:
  assumes "Note_set f this v h = Inr h'"
  shows "only_changes (view this) 0 h h'"
proof (cases this h rule: variant_cases)
  case short
  with assms show ?thesis
    by (cases f) (simp_all add: Note_accessors split: if_splits)
next
  case (long w le)
  with assms show ?thesis
    by (cases f) (auto simp: Note_accessors split: if_splits intro: write_only_changes)
qed

lemma Note_roundtrip:
  assumes set: "Note_set f this v h = Inr h'"
    and w: "is32bit this h = Inr w"
    and fits: "fits (if w then W32 else W64) (snd (snd (Note_layout f))) v"
    and own: "view this \<noteq> hview (header (elf this))"
    and a: "view this < length h"
  shows "Note_get f this h' = Inr v"
proof -
  from w obtain le where le: "isLE this h = Inr le"
    by (cases this h rule: variant_cases) auto
  have oc: "only_changes (view this) 0 h h'"
    using set by (rule Note_set_only_changes)
  have le': "isLE this h' = Inr le" and w': "is32bit this h' = Inr w"
    using variant_frame [OF oc own] le w by simp_all
  show ?thesis
    using set fits a
    by (cases f; cases v; cases w)
      (auto simp: Note_accessors Note_accessors le w le' w'
        intro: read_write_8 [where w = W32] read_write_16 [where w = W32]
          read_write_32 [where w = W32] read_write_64 [where w = W64])
qed

lemma Rel_set_only_changes:
  assumes "Rel_set f this v h = Inr h'"
  shows "only_changes (view this) 0 h h'"
proof (cases this h rule: variant_cases)
  case short
  with assms show ?thesis
    by (cases f)
      (auto simp: Rel_accessors only_changes_def split: if_splits option.splits bool.splits)
next
  case (long w le)
  with assms show ?thesis
    by (cases f)
      (auto simp: Rel_accessors split: if_splits option.splits bool.splits
        intro: write_only_changes, simp_all add: only_changes_def)
qed

lemma Rel_roundtrip:
  assumes set: "Rel_set f this v h = Inr h'"
    and w: "is32bit this h = Inr w"
    and fits: "fits (if w then W32 else W64) (snd (snd (Relocation_layout f))) v"
    and own: "view this \<noteq> hview (header (elf this))"
    and a: "view this < length h"
    and addend: "f = r_added \<longrightarrow> needsAddend this = Some True"
  shows "Rel_get f this h' = Inr (Numeric v)"
proof -
  from w obtain le where le: "isLE this h = Inr le"
    by (cases this h rule: variant_cases) auto
  have oc: "only_changes (view this) 0 h h'"
    using set by (rule Rel_set_only_changes)
  have le': "isLE this h' = Inr le" and w': "is32bit this h' = Inr w"
    using variant_frame [OF oc own] le w by simp_all
  have rw32: "readUint32 h' a (Inr off) (Inr le) = Inr v"
    if "writeUint32 h a (Inr off) v (Inr le) = Inr h'" "a < length h" "fits W32 u32 v" for a off
    using that by (rule read_write_32)
  have rw64: "readBigUint64 h' a (Inr off) (Inr le) = Inr v"
    if "writeBigUint64 h a (Inr off) v (Inr le) = Inr h'" "a < length h" "fits W64 u64 v" for a off
    using that by (rule read_write_64)
  show ?thesis
    using set fits a addend
    by (cases f; cases v; cases w)
      (auto simp: Rel_accessors le w le' w' andThen_def rw32 rw64)
qed

text \<open>
  Claim C4, amended. For every field that has a setter (the fields of the file header,
  program header, symbol, relocation, dynamic entry and note; the section header has
  no setter), under both word widths and both byte orders: when a value that fits the
  field is written through the setter of the file header, or of an element whose
  buffer is not the file's own, reading through the getter of the same field returns
  the value. A value fits a field of fixed width as a number below the width's bound,
  and a native word as a number below \<open>2 ^ 32\<close> on a 32-bit file and as a bigint below
  \<open>2 ^ 64\<close> on a 64-bit file. For the addend of a relocation the record must have been
  made with \<^verbatim>\<open>needsAddend\<close> true.
\<close>

theorem set_then_get:
  "(ELFHeader_set f1 hdr v h = Inr h' \<and> ELFHeader_is32bit hdr h = Inr w \<and>
      fits (wordWidthOf w) (fieldWidth FileHeader_layout f1) v \<and> hview hdr < length h
      \<longrightarrow> ELFHeader_get f1 hdr h' = Inr v) \<and>
   (ProgramHeader_set f2 x v h = Inr h' \<and> is32bit x h = Inr w \<and>
      fits (wordWidthOf w) (fieldWidth ProgramHeader_layout f2) v \<and>
      view x \<noteq> hview (header (elf x)) \<and> view x < length h
      \<longrightarrow> ProgramHeader_get f2 x h' = Inr v) \<and>
   (Symbol_set f3 x v h = Inr h' \<and> is32bit x h = Inr w \<and>
      fits (wordWidthOf w) (fieldWidth Symbol_layout f3) v \<and>
      view x \<noteq> hview (header (elf x)) \<and> view x < length h
      \<longrightarrow> Symbol_get f3 x h' = Inr v) \<and>
   (Dyn_set f4 x v h = Inr h' \<and> is32bit x h = Inr w \<and>
      fits (wordWidthOf w) (fieldWidth DynamicEntry_layout f4) v \<and>
      view x \<noteq> hview (header (elf x)) \<and> view x < length h
      \<longrightarrow> Dyn_get f4 x h' = Inr v) \<and>
   (Note_set f5 x v h = Inr h' \<and> is32bit x h = Inr w \<and>
      fits (wordWidthOf w) (fieldWidth Note_layout f5) v \<and>
      view x \<noteq> hview (header (elf x)) \<and> view x < length h
      \<longrightarrow> Note_get f5 x h' = Inr v) \<and>
   (Rel_set f6 r v h = Inr h' \<and> is32bit r h = Inr w \<and>
      fits (wordWidthOf w) (fieldWidth Relocation_layout f6) v \<and>
      view r \<noteq> hview (header (elf r)) \<and> view r < length h \<and>
      (f6 = r_added \<longrightarrow> needsAddend r = Some True)
      \<longrightarrow> Rel_get f6 r h' = Inr (Numeric v))"
proof (intro conjI impI)
  assume "ELFHeader_set f1 hdr v h = Inr h' \<and> ELFHeader_is32bit hdr h = Inr w \<and>
      fits (wordWidthOf w) (fieldWidth FileHeader_layout f1) v \<and> hview hdr < length h"
  then show "ELFHeader_get f1 hdr h' = Inr v"
    unfolding wordWidthOf_def fieldWidth_def by (elim conjE) (rule ELFHeader_roundtrip)
next
  assume "ProgramHeader_set f2 x v h = Inr h' \<and> is32bit x h = Inr w \<and>
      fits (wordWidthOf w) (fieldWidth ProgramHeader_layout f2) v \<and>
      view x \<noteq> hview (header (elf x)) \<and> view x < length h"
  then show "ProgramHeader_get f2 x h' = Inr v"
    unfolding wordWidthOf_def fieldWidth_def by (elim conjE) (rule ProgramHeader_roundtrip)
next
  assume "Symbol_set f3 x v h = Inr h' \<and> is32bit x h = Inr w \<and>
      fits (wordWidthOf w) (fieldWidth Symbol_layout f3) v \<and>
      view x \<noteq> hview (header (elf x)) \<and> view x < length h"
  then show "Symbol_get f3 x h' = Inr v"
    unfolding wordWidthOf_def fieldWidth_def by (elim conjE) (rule Symbol_roundtrip)
next
  assume "Dyn_set f4 x v h = Inr h' \<and> is32bit x h = Inr w \<and>
      fits (wordWidthOf w) (fieldWidth DynamicEntry_layout f4) v \<and>
      view x \<noteq> hview (header (elf x)) \<and> view x < length h"
  then show "Dyn_get f4 x h' = Inr v"
    unfolding wordWidthOf_def fieldWidth_def by (elim conjE) (rule Dyn_roundtrip)
next
  assume "Note_set f5 x v h = Inr h' \<and> is32bit x h = Inr w \<and>
      fits (wordWidthOf w) (fieldWidth Note_layout f5) v \<and>
      view x \<noteq> hview (header (elf x)) \<and> view x < length h"
  then show "Note_get f5 x h' = Inr v"
    unfolding wordWidthOf_def fieldWidth_def by (elim conjE) (rule Note_roundtrip)
next
  assume "Rel_set f6 r v h = Inr h' \<and> is32bit r h = Inr w \<and>
      fits (wordWidthOf w) (fieldWidth Relocation_layout f6) v \<and>
      view r \<noteq> hview (header (elf r)) \<and> view r < length h \<and>
      (f6 = r_added \<longrightarrow> needsAddend r = Some True)"
  then show "Rel_get f6 r h' = Inr (Numeric v)"
    unfolding wordWidthOf_def fieldWidth_def by (elim conjE) (rule Rel_roundtrip)
qed

lemma nat_le_numeral:
  "nat_le (numeral k) v = of_nat (v mod 256) # nat_le (pred_numeral k) (v div 256)"
  by (subst numeral_eq_Suc) (rule nat_le.simps)

lemmas accessor_defs = nat_le_numeral
  ELFHeader_setters Symbol_setters ProgramHeader_setters Dyn_accessors Note_accessors
  Rel_accessors writeUint8_def writeUint16_def writeUint32_def writeBigUint64_def
  setUint8_def setUint16_def setUint32_def setBigUint64_def setUint_def encode_def

text \<open>The file header of the 64-bit little-endian example and a dynamic entry of a
  32-bit big-endian file.\<close>

theorem set_then_get_witness:
  "ELFHeader_set e_phoff (header (elfref 0 120)) (BigInt 0x0123456789) [file64, segment64] =
     Inr [take 0x20 file64 @ [0x89, 0x67, 0x45, 0x23, 0x01, 0, 0, 0] @ drop 0x28 file64, segment64] \<and>
   ELFHeader_is32bit (header (elfref 0 120)) [file64, segment64] = Inr False \<and>
   fits (wordWidthOf False) (fieldWidth FileHeader_layout e_phoff) (BigInt 0x0123456789) \<and>
   hview (header (elfref 0 120)) < length [file64, segment64] \<and>
   ELFHeader_get e_phoff (header (elfref 0 120))
       [take 0x20 file64 @ [0x89, 0x67, 0x45, 0x23, 0x01, 0, 0, 0] @ drop 0x28 file64, segment64] =
     Inr (BigInt 0x0123456789) \<and>
   Dyn_set d_val (element 1 8 (elfref 0 16)) (Number 0x01020304) [ident32BE, dyn32BE] =
     Inr [ident32BE, [0, 0, 0, 1, 1, 2, 3, 4]] \<and>
   is32bit (element 1 8 (elfref 0 16)) [ident32BE, dyn32BE] = Inr True \<and>
   fits (wordWidthOf True) (fieldWidth DynamicEntry_layout d_val) (Number 0x01020304) \<and>
   view (element 1 8 (elfref 0 16)) \<noteq> hview (header (elf (element 1 8 (elfref 0 16)))) \<and>
   view (element 1 8 (elfref 0 16)) < length [ident32BE, dyn32BE] \<and>
   Dyn_get d_val (element 1 8 (elfref 0 16)) [ident32BE, [0, 0, 0, 1, 1, 2, 3, 4]] =
     Inr (Number 0x01020304)"
proof -
  have s1: "ELFHeader_set e_phoff (header (elfref 0 120)) (BigInt 0x0123456789) [file64, segment64] =
     Inr [take 0x20 file64 @ [0x89, 0x67, 0x45, 0x23, 0x01, 0, 0, 0] @ drop 0x28 file64, segment64]"
    by (simp add: accessor_defs example_defs eval_defs)
  have w1: "ELFHeader_is32bit (header (elfref 0 120)) [file64, segment64] = Inr False"
    by (simp add: example_defs eval_defs)
  have f1: "fits (wordWidthOf False) (fieldWidth FileHeader_layout e_phoff) (BigInt 0x0123456789)"
    by (simp add: wordWidthOf_def fieldWidth_def)
  have a1: "hview (header (elfref 0 120)) < length [file64, segment64]"
    by (simp add: hview_def elfref_def)
  have s2: "Dyn_set d_val (element 1 8 (elfref 0 16)) (Number 0x01020304) [ident32BE, dyn32BE] =
     Inr [ident32BE, [0, 0, 0, 1, 1, 2, 3, 4]]"
    by (simp add: accessor_defs example_defs eval_defs)
  have w2: "is32bit (element 1 8 (elfref 0 16)) [ident32BE, dyn32BE] = Inr True"
    by (simp add: example_defs eval_defs)
  have f2: "fits (wordWidthOf True) (fieldWidth DynamicEntry_layout d_val) (Number 0x01020304)"
    by (simp add: wordWidthOf_def fieldWidth_def)
  have o2: "view (element 1 8 (elfref 0 16)) \<noteq> hview (header (elf (element 1 8 (elfref 0 16))))"
    and a2: "view (element 1 8 (elfref 0 16)) < length [ident32BE, dyn32BE]"
    by (simp_all add: hview_def view_def elfref_def element_def)
  from set_then_get
      [where ?f1.0 = e_phoff and hdr = "header (elfref 0 120)" and v = "BigInt 0x0123456789"
        and h = "[file64, segment64]" and w = False
        and h' = "[take 0x20 file64 @ [0x89, 0x67, 0x45, 0x23, 0x01, 0, 0, 0] @ drop 0x28 file64, segment64]"]
    s1 w1 f1 a1
  have g1: "ELFHeader_get e_phoff (header (elfref 0 120))
       [take 0x20 file64 @ [0x89, 0x67, 0x45, 0x23, 0x01, 0, 0, 0] @ drop 0x28 file64, segment64] =
     Inr (BigInt 0x0123456789)"
    by blast
  from set_then_get
      [where ?f4.0 = d_val and x = "element 1 8 (elfref 0 16)" and v = "Number 0x01020304"
        and h = "[ident32BE, dyn32BE]" and w = True and h' = "[ident32BE, [0, 0, 0, 1, 1, 2, 3, 4]]"]
    s2 w2 f2 o2 a2
  have g2: "Dyn_get d_val (element 1 8 (elfref 0 16)) [ident32BE, [0, 0, 0, 1, 1, 2, 3, 4]] =
     Inr (Number 0x01020304)"
    by blast
  from s1 w1 f1 a1 g1 s2 w2 f2 o2 a2 g2 show ?thesis
    by (intro conjI)
qed

text \<open>
  The claim as stated fails where the value does not fit: a number written to a native
  word of a 64-bit file goes to the 32-bit layout's offset as four bytes (the setter
  chooses by the type of the value, the getter by the file's word width), and a number
  beyond the field's width is stored modulo the width. It fails for the addend of a
  record made without \<^verbatim>\<open>needsAddend\<close>, and for an element laid over the file's own
  buffer, where the write changes the identification bytes.
\<close>

theorem set_then_get_counterexample:
  "andThen (ELFHeader_set e_phoff (header (elfref 0 120)) (Number 5) [file64, segment64])
       (ELFHeader_get e_phoff (header (elfref 0 120))) = Inr (BigInt 0x40) \<and>
   andThen (ELFHeader_set e_type (header (elfref 0 120)) (Number 65537) [file64, segment64])
       (ELFHeader_get e_type (header (elfref 0 120))) = Inr (Number 1) \<and>
   andThen (Rel_set r_added (Rel_FromBuffer \<lparr>arrayBuffer = 1, byteOffset = 0, byteLength = 12\<rparr>
                (elfref 0 208) None) (Number 7) [file32, rela32])
       (Rel_get r_added (Rel_FromBuffer \<lparr>arrayBuffer = 1, byteOffset = 0, byteLength = 12\<rparr>
                (elfref 0 208) None)) = Inr Undefined \<and>
   andThen (ProgramHeader_set p_offset (element 0 208 (elfref 0 208)) (Number 0x02020202) [file32])
       (ProgramHeader_get p_offset (element 0 208 (elfref 0 208))) = Inr (BigInt 0)"
  by (simp add: accessor_defs example_defs eval_defs)

section \<open>The elements of a walked table\<close>



lemma window_inside:
  assumes "st \<le> en" "en \<le> length bs"
  shows "window bs st en = take (en - st) (drop st bs)" "length (window bs st en) = en - st"
  using assms by (auto simp: window_def min_def)










section \<open>Windows past the end of the buffer\<close>






end
